theory Spec2Isabelle
  imports Main
begin

section \<open>Run-state snapshot (state.py)\<close>

text \<open>
  The enums \<^verbatim>\<open>RunStatus\<close> and \<^verbatim>\<open>TaskStatus\<close> are string enums; the functions
  \<open>RunStatus_value\<close> and \<open>TaskStatus_value\<close> give the string each member serialises to.
  Both enums have a member called \<^verbatim>\<open>ERROR\<close>; the one of \<^verbatim>\<open>TaskStatus\<close> is written
  \<open>TASK_ERROR\<close> here.
\<close>

datatype RunStatus = WAITING | RUNNING | STOPPED | ERROR

datatype TaskStatus = PENDING | IN_PROGRESS | COMPLETED | TASK_ERROR

fun RunStatus_value :: "RunStatus \<Rightarrow> string" where
  "RunStatus_value WAITING = ''waiting''"
| "RunStatus_value RUNNING = ''running''"
| "RunStatus_value STOPPED = ''stopped''"
| "RunStatus_value ERROR = ''error''"

fun TaskStatus_value :: "TaskStatus \<Rightarrow> string" where
  "TaskStatus_value PENDING = ''pending''"
| "TaskStatus_value IN_PROGRESS = ''in_progress''"
| "TaskStatus_value COMPLETED = ''completed''"
| "TaskStatus_value TASK_ERROR = ''error''"

text \<open>
  A \<^verbatim>\<open>datetime\<close> is carried as its ISO-8601 text, the form in which
  \<^verbatim>\<open>model_dump(mode="json")\<close> emits it and from which validation rebuilds it.
\<close>

type_synonym datetime = string

record IterationState =
  current :: int
  specified :: int

record CodeMetrics =
  total_lines :: int
  file_count :: int

record TaskInfo =
  description :: string
  task_status :: TaskStatus

record State =
  status :: RunStatus
  iteration :: IterationState
  code_metrics :: CodeMetrics
  current_task :: TaskInfo
  last_output :: string
  timestamp :: datetime

subsection \<open>JSON documents\<close>

text \<open>
  The value that \<^verbatim>\<open>json.load\<close> returns and \<^verbatim>\<open>json.dump\<close> takes. An object is the
  list of its members in document order; when a key occurs twice, \<^verbatim>\<open>json.load\<close>
  keeps the later value, and so does \<open>json_member\<close>. The text layer of the \<^verbatim>\<open>json\<close>
  module (indentation, escapes) is below this model: a file holds either a document or
  text that \<^verbatim>\<open>json.load\<close> rejects with \<^verbatim>\<open>JSONDecodeError\<close>. Failures of the file
  system itself (permissions, a full disk) are not modelled.
\<close>

datatype json =
    JNull
  | JBool bool
  | JInt int
  | JStr string
  | JArr "json list"
  | JObj "(string \<times> json) list"

datatype json_text = Malformed | Document json

definition json_member :: "(string \<times> json) list \<Rightarrow> string \<Rightarrow> json option" where
  "json_member kvs k = map_of (rev kvs) k"

type_synonym path = "string list"

type_synonym json_files = "path \<rightharpoonup> json_text"

datatype py_error = ZeroDivisionError | TypeError | FileNotFoundError

subsection \<open>Serialisation: \<^verbatim>\<open>model_dump(mode="json")\<close>\<close>

definition dump_IterationState :: "IterationState \<Rightarrow> json" where
  "dump_IterationState i = JObj [(''current'', JInt (current i)), (''specified'', JInt (specified i))]"

definition dump_CodeMetrics :: "CodeMetrics \<Rightarrow> json" where
  "dump_CodeMetrics m = JObj [(''total_lines'', JInt (total_lines m)), (''file_count'', JInt (file_count m))]"

definition dump_TaskInfo :: "TaskInfo \<Rightarrow> json" where
  "dump_TaskInfo t =
     JObj [(''description'', JStr (description t)), (''status'', JStr (TaskStatus_value (task_status t)))]"

definition model_dump :: "State \<Rightarrow> json" where
  "model_dump s =
     JObj [(''status'', JStr (RunStatus_value (status s))),
           (''iteration'', dump_IterationState (iteration s)),
           (''code_metrics'', dump_CodeMetrics (code_metrics s)),
           (''current_task'', dump_TaskInfo (current_task s)),
           (''last_output'', JStr (last_output s)),
           (''timestamp'', JStr (timestamp s))]"

text \<open>
  \<^verbatim>\<open>State.save\<close> creates the parent directory, opens the file with mode \<^verbatim>\<open>"w"\<close> and
  dumps the model into it. Opening with mode \<^verbatim>\<open>"w"\<close> creates the file or truncates
  the one that is there: from then until the dump is complete the file is empty or
  holds the beginning of the new document, text that \<^verbatim>\<open>json.load\<close> rejects. There is
  no temporary file and no replace.
\<close>

definition open_for_writing :: "path \<Rightarrow> json_files \<Rightarrow> json_files" where
  "open_for_writing p fs = fs(p \<mapsto> Malformed)"

definition json_dump :: "json \<Rightarrow> path \<Rightarrow> json_files \<Rightarrow> json_files" where
  "json_dump doc p fs = fs(p \<mapsto> Document doc)"

definition save :: "State \<Rightarrow> path \<Rightarrow> json_files \<Rightarrow> json_files" where
  "save s p fs = json_dump (model_dump s) p (open_for_writing p fs)"

text \<open>
  The states of the files that \<^verbatim>\<open>State.save\<close> passes through, in order: what a reader
  that polls while the save is under way can find.
\<close>

definition save_steps :: "State \<Rightarrow> path \<Rightarrow> json_files \<Rightarrow> json_files list" where
  "save_steps s p fs =
     [open_for_writing p fs, json_dump (model_dump s) p (open_for_writing p fs)]"

subsection \<open>Validation: \<^verbatim>\<open>cls(**data)\<close>\<close>

text \<open>
  Validation of a parsed document against the field declarations of the models: a
  required field that is missing, or a value of the wrong JSON type, is a
  \<^verbatim>\<open>ValidationError\<close> (a \<^verbatim>\<open>ValueError\<close>), here \<open>None\<close>. Members the model does not
  declare are ignored, and a field with a default may be absent. The lax coercions of
  the validation library (a numeric string for an integer, and the like) are not
  modelled: a leaf is accepted when it has the JSON type of the field.
\<close>

fun parse_RunStatus :: "string \<Rightarrow> RunStatus option" where
  "parse_RunStatus s =
     (if s = ''waiting'' then Some WAITING
      else if s = ''running'' then Some RUNNING
      else if s = ''stopped'' then Some STOPPED
      else if s = ''error'' then Some ERROR
      else None)"

fun parse_TaskStatus :: "string \<Rightarrow> TaskStatus option" where
  "parse_TaskStatus s =
     (if s = ''pending'' then Some PENDING
      else if s = ''in_progress'' then Some IN_PROGRESS
      else if s = ''completed'' then Some COMPLETED
      else if s = ''error'' then Some TASK_ERROR
      else None)"

fun validate_int :: "json option \<Rightarrow> int option" where
  "validate_int (Some (JInt n)) = Some n"
| "validate_int _ = None"

fun validate_int_default :: "int \<Rightarrow> json option \<Rightarrow> int option" where
  "validate_int_default d None = Some d"
| "validate_int_default d (Some (JInt n)) = Some n"
| "validate_int_default d _ = None"

fun validate_IterationState :: "json option \<Rightarrow> IterationState option" where
  "validate_IterationState (Some (JObj kvs)) =
     (case (validate_int (json_member kvs ''current''), validate_int (json_member kvs ''specified'')) of
        (Some c, Some s) \<Rightarrow> Some \<lparr>current = c, specified = s\<rparr>
      | _ \<Rightarrow> None)"
| "validate_IterationState _ = None"

fun validate_CodeMetrics :: "json option \<Rightarrow> CodeMetrics option" where
  "validate_CodeMetrics None = Some \<lparr>total_lines = 0, file_count = 0\<rparr>"
| "validate_CodeMetrics (Some (JObj kvs)) =
     (case (validate_int_default 0 (json_member kvs ''total_lines''),
            validate_int_default 0 (json_member kvs ''file_count'')) of
        (Some t, Some f) \<Rightarrow> Some \<lparr>total_lines = t, file_count = f\<rparr>
      | _ \<Rightarrow> None)"
| "validate_CodeMetrics _ = None"

fun validate_TaskInfo :: "json option \<Rightarrow> TaskInfo option" where
  "validate_TaskInfo (Some (JObj kvs)) =
     (case (json_member kvs ''description'', json_member kvs ''status'') of
        (Some (JStr d), Some (JStr s)) \<Rightarrow>
          (case parse_TaskStatus s of
             Some t \<Rightarrow> Some \<lparr>description = d, task_status = t\<rparr>
           | None \<Rightarrow> None)
      | _ \<Rightarrow> None)"
| "validate_TaskInfo _ = None"

fun validate_status :: "json option \<Rightarrow> RunStatus option" where
  "validate_status (Some (JStr s)) = parse_RunStatus s"
| "validate_status _ = None"

fun validate_str_default :: "string \<Rightarrow> json option \<Rightarrow> string option" where
  "validate_str_default d None = Some d"
| "validate_str_default d (Some (JStr s)) = Some s"
| "validate_str_default d _ = None"

text \<open>
  The default of \<^verbatim>\<open>timestamp\<close> is \<^verbatim>\<open>datetime.now()\<close>, so validation takes the
  clock reading \<open>now\<close>.
\<close>

definition validate_State :: "datetime \<Rightarrow> (string \<times> json) list \<Rightarrow> State option" where
  "validate_State now kvs =
     (case validate_status (json_member kvs ''status'') of None \<Rightarrow> None | Some st \<Rightarrow>
      case validate_IterationState (json_member kvs ''iteration'') of None \<Rightarrow> None | Some it \<Rightarrow>
      case validate_CodeMetrics (json_member kvs ''code_metrics'') of None \<Rightarrow> None | Some cm \<Rightarrow>
      case validate_TaskInfo (json_member kvs ''current_task'') of None \<Rightarrow> None | Some ct \<Rightarrow>
      case validate_str_default [] (json_member kvs ''last_output'') of None \<Rightarrow> None | Some lo \<Rightarrow>
      case validate_str_default now (json_member kvs ''timestamp'') of None \<Rightarrow> None | Some ts \<Rightarrow>
        Some \<lparr>status = st, iteration = it, code_metrics = cm, current_task = ct,
              last_output = lo, timestamp = ts\<rparr>)"

text \<open>
  \<^verbatim>\<open>State.load\<close>: \<open>None\<close> when the file does not exist, when it does not parse, or when
  validation fails. A document that is not an object makes \<^verbatim>\<open>cls(**data)\<close> raise
  \<^verbatim>\<open>TypeError\<close>, which the \<^verbatim>\<open>except\<close> clause does not catch.
\<close>

definition load :: "datetime \<Rightarrow> path \<Rightarrow> json_files \<Rightarrow> py_error + State option" where
  "load now p fs =
     (case fs p of
        None \<Rightarrow> Inr None
      | Some Malformed \<Rightarrow> Inr None
      | Some (Document (JObj kvs)) \<Rightarrow> Inr (validate_State now kvs)
      | Some (Document _) \<Rightarrow> Inl TypeError)"

text \<open>
  \<^verbatim>\<open>State.create_waiting\<close>; the code metrics and the timestamp take their defaults,
  the latter the clock reading \<open>now\<close>.
\<close>

definition create_waiting :: "int \<Rightarrow> datetime \<Rightarrow> State" where
  "create_waiting max_its now =
     \<lparr>status = WAITING,
      iteration = \<lparr>current = 0, specified = max_its\<rparr>,
      code_metrics = \<lparr>total_lines = 0, file_count = 0\<rparr>,
      current_task = \<lparr>description = ''Waiting for autonomous runner to start...'',
                      task_status = PENDING\<rparr>,
      last_output = [],
      timestamp = now\<rparr>"

section \<open>Feedback store (feedback.py)\<close>

datatype FeedbackPriority = LOW | MEDIUM | HIGH | CRITICAL

datatype FeedbackType = FEEDBACK | BUG | FEATURE | IMPROVEMENT | VISUAL

fun FeedbackPriority_value :: "FeedbackPriority \<Rightarrow> string" where
  "FeedbackPriority_value LOW = ''LOW''"
| "FeedbackPriority_value MEDIUM = ''MEDIUM''"
| "FeedbackPriority_value HIGH = ''HIGH''"
| "FeedbackPriority_value CRITICAL = ''CRITICAL''"

fun FeedbackType_value :: "FeedbackType \<Rightarrow> string" where
  "FeedbackType_value FEEDBACK = ''FEEDBACK''"
| "FeedbackType_value BUG = ''BUG''"
| "FeedbackType_value FEATURE = ''FEATURE''"
| "FeedbackType_value IMPROVEMENT = ''IMPROVEMENT''"
| "FeedbackType_value VISUAL = ''VISUAL''"

text \<open>
  The part of the file system under \<^verbatim>\<open>.spec-workflow/feedback\<close> that the
  \<^verbatim>\<open>FeedbackManager\<close> of one project root works on: whether the directories exist,
  the text of \<^verbatim>\<open>pending.md\<close> if the file exists, and the files of \<^verbatim>\<open>archive/\<close> by
  name.
\<close>

record feedback_store =
  feedback_dir :: bool
  pending_file :: "string option"
  archive_dir :: bool
  archive_files :: "string \<rightharpoonup> string"

definition has_pending_feedback :: "feedback_store \<Rightarrow> bool" where
  "has_pending_feedback fb = (pending_file fb \<noteq> None)"

definition read_pending_feedback :: "feedback_store \<Rightarrow> string option" where
  "read_pending_feedback fb = (if \<not> has_pending_feedback fb then None else pending_file fb)"

text \<open>
  \<^verbatim>\<open>post_feedback\<close>; \<open>now\<close> is \<^verbatim>\<open>datetime.now().strftime("%Y-%m-%d %H:%M:%S")\<close>.
  The result is the store; the Python returns the path of the pending file.
\<close>

definition post_feedback ::
  "string \<Rightarrow> FeedbackPriority \<Rightarrow> FeedbackType \<Rightarrow> string \<Rightarrow> feedback_store \<Rightarrow> feedback_store" where
  "post_feedback message priority feedback_type now fb =
     (let separator = (if pending_file fb \<noteq> None then ''\<newline>\<newline>---\<newline>\<newline>'' else []);
          old = (case pending_file fb of None \<Rightarrow> [] | Some t \<Rightarrow> t);
          entry = separator
            @ ''## '' @ message @ ''\<newline>''
            @ ''**Date:** '' @ now @ ''\<newline>''
            @ ''**Priority:** '' @ FeedbackPriority_value priority @ ''\<newline>''
            @ ''**Type:** '' @ FeedbackType_value feedback_type @ ''\<newline>''
            @ ''\<newline>''
            @ ''**Description:**\<newline>''
            @ message @ ''\<newline>''
            @ ''\<newline>''
            @ ''**Status:** PENDING (awaiting AI agent processing)\<newline>''
            @ ''\<newline>''
            @ ''**Posted by:** Human (async feedback)\<newline>''
      in fb\<lparr>feedback_dir := True, pending_file := Some (old @ entry)\<rparr>)"

text \<open>
  \<^verbatim>\<open>Path.rename\<close> of the pending file into the archive: it raises
  \<^verbatim>\<open>FileNotFoundError\<close> when there is no pending file, and replaces an archive file
  of the same name.
\<close>

definition rename_pending :: "string \<Rightarrow> feedback_store \<Rightarrow> py_error + feedback_store" where
  "rename_pending name fb =
     (case pending_file fb of
        None \<Rightarrow> Inl FileNotFoundError
      | Some t \<Rightarrow> Inr (fb\<lparr>pending_file := None, archive_files := (archive_files fb)(name \<mapsto> t)\<rparr>))"

text \<open>
  \<^verbatim>\<open>archive_feedback\<close>; \<open>stamp\<close> is \<^verbatim>\<open>datetime.now().strftime("%Y-%m-%d-%H%M%S")\<close>.
  The result is the name of the archive file (or \<open>None\<close>), or the exception raised,
  with the store as the call leaves it.
\<close>

definition archive_feedback ::
  "string \<Rightarrow> feedback_store \<Rightarrow> (py_error + string option) \<times> feedback_store" where
  "archive_feedback stamp fb =
     (if \<not> has_pending_feedback fb then (Inr None, fb)
      else
        let fb1 = fb\<lparr>feedback_dir := True, archive_dir := True\<rparr>;
            archive_file = stamp @ ''.md''
        in case rename_pending archive_file fb1 of
             Inl e \<Rightarrow> (Inl e, fb1)
           | Inr fb2 \<Rightarrow> (Inr (Some archive_file), fb2))"

definition clear_feedback :: "feedback_store \<Rightarrow> bool \<times> feedback_store" where
  "clear_feedback fb =
     (if has_pending_feedback fb then (True, fb\<lparr>pending_file := None\<rparr>) else (False, fb))"

text \<open>Calling \<^verbatim>\<open>archive_feedback\<close> once per clock reading of a list, in order.\<close>

fun archive_repeatedly ::
  "string list \<Rightarrow> feedback_store \<Rightarrow> (py_error + string option) list \<times> feedback_store" where
  "archive_repeatedly [] fb = ([], fb)"
| "archive_repeatedly (stamp # stamps) fb =
     (let (r, fb1) = archive_feedback stamp fb;
          (rs, fb2) = archive_repeatedly stamps fb1
      in (r # rs, fb2))"

section \<open>Configuration (config.py)\<close>

text \<open>
  The settings the loop reads. They are plain \<^verbatim>\<open>int\<close> fields with defaults and no
  range constraint, so any integer can be configured. The settings of the agent
  command line (model, flags, token limit) do not influence the loop and are left out.
\<close>

record Config =
  max_iterations :: int
  checkpoint_interval :: int
  max_no_progress :: int
  max_consecutive_failures :: int
  project_root :: path

definition default_config :: "path \<Rightarrow> Config" where
  "default_config root =
     \<lparr>max_iterations = 50, checkpoint_interval = 10, max_no_progress = 3,
      max_consecutive_failures = 3, project_root = root\<rparr>"

definition monitor_dir :: "Config \<Rightarrow> path" where
  "monitor_dir cfg = project_root cfg @ [''.spec-workflow'', ''monitor'']"

definition state_file :: "Config \<Rightarrow> path" where
  "state_file cfg = monitor_dir cfg @ [''state.json'']"

section \<open>The runner (runner.py)\<close>

subsection \<open>Decimal text of an integer, as an f-string formats it\<close>

fun str_nat :: "nat \<Rightarrow> string" where
  "str_nat n =
     (if n < 10 then [''0123456789'' ! n]
      else str_nat (n div 10) @ [''0123456789'' ! (n mod 10)])"

declare str_nat.simps [simp del]

definition str_int :: "int \<Rightarrow> string" where
  "str_int i = (if i < 0 then CHR ''-'' # str_nat (nat (- i)) else str_nat (nat i))"

subsection \<open>State of the runner and of the project files\<close>

text \<open>
  The files of the project that the loop reads and writes: the JSON files (the state
  snapshot is one of them) and the feedback store.
\<close>

record project =
  json_store :: json_files
  feedback :: feedback_store

text \<open>
  What the loop prints as a banner or logs as an error when it ends; the outcome of a
  run is identified by it, since several outcomes share an exit code.
\<close>

datatype event =
    ValidationFailed
  | StopFileDetected
  | ProjectComplete
  | EscalationRequired
  | UnknownExitCode int
  | CircuitBreakerTriggered
  | CheckpointReached int
  | MaxIterationsReached

text \<open>
  What determines the prompt handed to the agent: the iteration number, the configured
  maximum, and the feedback section, present when the feedback content read before the
  invocation is neither \<^verbatim>\<open>None\<close> nor empty.
\<close>

record prompt =
  prompt_iteration :: int
  prompt_max_iterations :: int
  prompt_feedback :: "string option"

text \<open>
  The \<^verbatim>\<open>AutonomousRunner\<close> object: the two circuit-breaker counters, together with
  the project files it works on, the prompts of the agent invocations made so far, and
  the banners printed so far.
\<close>

record runner =
  consecutive_failures :: int
  no_progress_count :: int
  files :: project
  codex_calls :: "prompt list"
  console :: "event list"

definition new_runner :: "project \<Rightarrow> runner" where
  "new_runner p =
     \<lparr>consecutive_failures = 0, no_progress_count = 0, files = p, codex_calls = [], console = []\<rparr>"

subsection \<open>What the loop observes from outside in one iteration\<close>

text \<open>
  The agent subprocess either exits with a return code or cannot be launched
  (\<^verbatim>\<open>FileNotFoundError\<close>).
\<close>

datatype codex_result = Exited int | CommandNotFound

text \<open>
  Everything one pass of the loop takes from its environment, in the order it is read:
  changes others made to the project files since the previous pass; the description
  \<^verbatim>\<open>_get_current_task_description\<close> returns; the code metrics and the clock for the
  snapshot written at the start; whether \<^verbatim>\<open>stop.txt\<close> exists when it is checked; the
  commit \<^verbatim>\<open>git rev-parse HEAD\<close> reports before the agent runs; the result of the
  agent subprocess and the changes made to the project files while it runs (by the
  agent, or by a human posting feedback); the commit reported afterwards; and the
  clock readings and the metrics for archiving and for a final snapshot.
\<close>

record iteration_env =
  between_iterations :: "project \<Rightarrow> project"
  task_description :: string
  metrics_at_start :: CodeMetrics
  clock_at_start :: datetime
  stop_file_exists :: bool
  head_before :: "string option"
  codex :: codex_result
  while_codex_runs :: "project \<Rightarrow> project"
  head_after :: "string option"
  archive_clock :: string
  metrics_at_end :: CodeMetrics
  clock_at_end :: datetime

record run_env =
  steering_present :: bool
  iterations :: "int \<Rightarrow> iteration_env"
  final_metrics :: CodeMetrics
  final_clock :: datetime

subsection \<open>The methods\<close>

text \<open>
  \<^verbatim>\<open>_check_stop_file\<close>: when \<^verbatim>\<open>stop.txt\<close> is there, the banner is printed and the file
  is removed; the file itself is not part of the project state kept here, since the
  run ends at once.
\<close>

definition check_stop_file :: "iteration_env \<Rightarrow> runner \<Rightarrow> bool \<times> runner" where
  "check_stop_file e r =
     (if stop_file_exists e then (True, r\<lparr>console := console r @ [StopFileDetected]\<rparr>)
      else (False, r))"

definition write_state ::
  "Config \<Rightarrow> RunStatus \<Rightarrow> int \<Rightarrow> string \<Rightarrow> TaskStatus \<Rightarrow> string \<Rightarrow> CodeMetrics \<Rightarrow> datetime
     \<Rightarrow> runner \<Rightarrow> runner" where
  "write_state cfg run_status it current_task_desc tstatus output metrics now r =
     (let state = \<lparr>status = run_status,
                   iteration = \<lparr>current = it, specified = max_iterations cfg\<rparr>,
                   code_metrics = metrics,
                   current_task = \<lparr>description = current_task_desc, task_status = tstatus\<rparr>,
                   last_output = output,
                   timestamp = now\<rparr>
      in r\<lparr>files := (files r)\<lparr>json_store := save state (state_file cfg) (json_store (files r))\<rparr>\<rparr>)"

definition build_prompt :: "Config \<Rightarrow> int \<Rightarrow> string option \<Rightarrow> prompt" where
  "build_prompt cfg it feedback_content =
     \<lparr>prompt_iteration = it, prompt_max_iterations = max_iterations cfg,
      prompt_feedback = (if feedback_content = None \<or> feedback_content = Some [] then None
                         else feedback_content)\<rparr>"

text \<open>
  \<^verbatim>\<open>_run_codex\<close>: the return code of the subprocess, or 1 when the command is not
  found. The call is recorded with its prompt, and the project files change as the
  environment says they do while the call lasts.
\<close>

definition run_codex :: "iteration_env \<Rightarrow> prompt \<Rightarrow> runner \<Rightarrow> int \<times> runner" where
  "run_codex e p r =
     (let r1 = r\<lparr>codex_calls := codex_calls r @ [p], files := while_codex_runs e (files r)\<rparr>
      in case codex e of
           Exited returncode \<Rightarrow> (returncode, r1)
         | CommandNotFound \<Rightarrow> (1, r1))"

text \<open>
  \<^verbatim>\<open>_handle_exit_code\<close>: \<open>True\<close> to continue, \<open>False\<close> to stop; \<open>stamp\<close> is the clock
  reading \<^verbatim>\<open>archive_feedback\<close> takes.
\<close>

definition handle_exit_code ::
  "Config \<Rightarrow> string \<Rightarrow> int \<Rightarrow> int \<Rightarrow> string option \<Rightarrow> string option \<Rightarrow> runner
     \<Rightarrow> (py_error + bool) \<times> runner" where
  "handle_exit_code cfg stamp exit_code it commit_before commit_after r =
     (if exit_code = 0 then
        let r1 = r\<lparr>consecutive_failures := 0\<rparr>
        in if commit_before \<noteq> commit_after \<and> has_pending_feedback (feedback (files r1)) then
             (case archive_feedback stamp (feedback (files r1)) of
                (Inl err, fb) \<Rightarrow> (Inl err, r1\<lparr>files := (files r1)\<lparr>feedback := fb\<rparr>\<rparr>)
              | (Inr archived, fb) \<Rightarrow> (Inr True, r1\<lparr>files := (files r1)\<lparr>feedback := fb\<rparr>\<rparr>))
           else (Inr True, r1)
      else if exit_code = 99 then
        (Inr False, r\<lparr>console := console r @ [ProjectComplete]\<rparr>)
      else if exit_code = 1 then
        let r1 = r\<lparr>consecutive_failures := consecutive_failures r + 1\<rparr>
        in if consecutive_failures r1 \<ge> max_consecutive_failures cfg then
             (Inr False, r1\<lparr>console := console r1 @ [EscalationRequired]\<rparr>)
           else (Inr True, r1)
      else
        (Inr False, r\<lparr>console := console r @ [UnknownExitCode exit_code]\<rparr>))"

subsection \<open>One pass of the loop\<close>

datatype step = Continue | Return int | Raise py_error

text \<open>
  The part of the loop body after the progress check: the exit-code policy, the final
  snapshot when it says stop, and the checkpoint.
\<close>

definition finish_iteration ::
  "Config \<Rightarrow> iteration_env \<Rightarrow> int \<Rightarrow> int \<Rightarrow> string option \<Rightarrow> string option \<Rightarrow> runner
     \<Rightarrow> step \<times> runner" where
  "finish_iteration cfg e it exit_code commit_before commit_after r =
     (case handle_exit_code cfg (archive_clock e) exit_code it commit_before commit_after r of
        (Inl err, r1) \<Rightarrow> (Raise err, r1)
      | (Inr continue, r1) \<Rightarrow>
          if \<not> continue then
            (Return (if exit_code = 0 \<or> exit_code = 99 then 0 else exit_code),
             write_state cfg STOPPED it (task_description e) COMPLETED ''Run completed''
               (metrics_at_end e) (clock_at_end e) r1)
          else if it mod checkpoint_interval cfg = 0 then
            (Return 2,
             write_state cfg STOPPED it (task_description e) PENDING
               (''Checkpoint '' @ str_int (it div checkpoint_interval cfg) @ '' - paused for review'')
               (metrics_at_end e) (clock_at_end e)
               (r1\<lparr>console := console r1 @ [CheckpointReached (it div checkpoint_interval cfg)]\<rparr>))
          else (Continue, r1))"

text \<open>
  The loop body for iteration number \<open>it\<close> (already incremented). Computing
  \<^verbatim>\<open>next_checkpoint\<close> divides by the checkpoint interval first, which raises
  \<^verbatim>\<open>ZeroDivisionError\<close> when the interval is 0. The count of new commits is only
  logged and is left out, as are the other log lines and the pause between passes.
\<close>

definition run_iteration :: "Config \<Rightarrow> iteration_env \<Rightarrow> int \<Rightarrow> runner \<Rightarrow> step \<times> runner" where
  "run_iteration cfg e it r0 =
     (let r = r0\<lparr>files := between_iterations e (files r0)\<rparr>
      in if checkpoint_interval cfg = 0 then (Raise ZeroDivisionError, r)
      else
        let r1 = write_state cfg RUNNING it (task_description e) IN_PROGRESS
                   (''Iteration '' @ str_int it @ '' starting...'')
                   (metrics_at_start e) (clock_at_start e) r;
            (stop, r2) = check_stop_file e r1
        in if stop then (Return 0, r2)
        else
          let feedback_content = read_pending_feedback (feedback (files r2));
              commit_before = head_before e;
              (exit_code, r3) = run_codex e (build_prompt cfg it feedback_content) r2;
              commit_after = head_after e
          in if commit_before = commit_after then
               let r4 = r3\<lparr>no_progress_count := no_progress_count r3 + 1\<rparr>
               in if no_progress_count r4 \<ge> max_no_progress cfg then
                    (Return 1, r4\<lparr>console := console r4 @ [CircuitBreakerTriggered]\<rparr>)
                  else finish_iteration cfg e it exit_code commit_before commit_after r4
             else
               finish_iteration cfg e it exit_code commit_before commit_after
                 (r3\<lparr>no_progress_count := 0\<rparr>))"

subsection \<open>The loop and \<^verbatim>\<open>run\<close>\<close>

text \<open>
  \<open>run_loop cfg env it r\<close> is the \<^verbatim>\<open>while\<close> loop entered with the counter at \<open>it\<close>,
  followed by the code after it. The result is the return value of \<^verbatim>\<open>run\<close>, or the
  exception that leaves it, with the runner as it is then.
\<close>

function run_loop :: "Config \<Rightarrow> run_env \<Rightarrow> int \<Rightarrow> runner \<Rightarrow> (py_error + int) \<times> runner" where
  "run_loop cfg env it r =
     (if it < max_iterations cfg then
        (case run_iteration cfg (iterations env (it + 1)) (it + 1) r of
           (Continue, r1) \<Rightarrow> run_loop cfg env (it + 1) r1
         | (Return code, r1) \<Rightarrow> (Inr code, r1)
         | (Raise err, r1) \<Rightarrow> (Inl err, r1))
      else
        (Inr 2,
         write_state cfg STOPPED (max_iterations cfg) ''Max iterations reached'' PENDING
           ''Maximum iterations reached - human review required''
           (final_metrics env) (final_clock env)
           (r\<lparr>console := console r @ [MaxIterationsReached]\<rparr>)))"
  by pat_completeness auto
termination
  by (relation "measure (\<lambda>(cfg, env, it, r). nat (max_iterations cfg - it))") auto

declare run_loop.simps [simp del]

definition run :: "Config \<Rightarrow> run_env \<Rightarrow> runner \<Rightarrow> (py_error + int) \<times> runner" where
  "run cfg env r =
     (if \<not> steering_present env then (Inr 1, r\<lparr>console := console r @ [ValidationFailed]\<rparr>)
      else run_loop cfg env 0 r)"

text \<open>
  The runner at the head of the loop after \<open>n\<close> passes that all continued, if the
  loop gets that far.
\<close>

fun loop_state :: "Config \<Rightarrow> run_env \<Rightarrow> runner \<Rightarrow> nat \<Rightarrow> runner option" where
  "loop_state cfg env r0 0 = Some r0"
| "loop_state cfg env r0 (Suc n) =
     (case loop_state cfg env r0 n of
        None \<Rightarrow> None
      | Some r \<Rightarrow>
          if int n < max_iterations cfg then
            (case run_iteration cfg (iterations env (int n + 1)) (int n + 1) r of
               (Continue, r1) \<Rightarrow> Some r1
             | _ \<Rightarrow> None)
          else None)"

text \<open>The snapshot a reader of the state file gets.\<close>

definition read_state :: "Config \<Rightarrow> datetime \<Rightarrow> runner \<Rightarrow> py_error + State option" where
  "read_state cfg now r = load now (state_file cfg) (json_store (files r))"

section \<open>The dashboard's reader (monitor.py)\<close>

text \<open>
  \<^verbatim>\<open>DevMonitor.read_state\<close>: the state loaded from the state file, or the waiting
  state when \<^verbatim>\<open>State.load\<close> returns \<^verbatim>\<open>None\<close>.
\<close>

definition DevMonitor_read_state :: "Config \<Rightarrow> datetime \<Rightarrow> json_files \<Rightarrow> py_error + State" where
  "DevMonitor_read_state cfg now fs =
     (case load now (state_file cfg) fs of
        Inl err \<Rightarrow> Inl err
      | Inr (Some state) \<Rightarrow> Inr state
      | Inr None \<Rightarrow> Inr (create_waiting (max_iterations cfg) now))"

subsection \<open>Auxiliary notions for the proofs\<close>

text \<open>The exit code \<^verbatim>\<open>_run_codex\<close> returns for a result of the subprocess.\<close>

definition codex_exit_code :: "iteration_env \<Rightarrow> int" where
  "codex_exit_code e = (case codex e of Exited returncode \<Rightarrow> returncode | CommandNotFound \<Rightarrow> 1)"

text \<open>
  The runner as the agent invocation of iteration \<open>it\<close> leaves it, in a pass that
  gets that far: the starting snapshot is written and the call is recorded.
\<close>

definition after_codex :: "Config \<Rightarrow> iteration_env \<Rightarrow> int \<Rightarrow> runner \<Rightarrow> runner" where
  "after_codex cfg e it r0 =
     (let r1 = write_state cfg RUNNING it (task_description e) IN_PROGRESS
                 (''Iteration '' @ str_int it @ '' starting...'')
                 (metrics_at_start e) (clock_at_start e)
                 (r0\<lparr>files := between_iterations e (files r0)\<rparr>)
      in snd (run_codex e (build_prompt cfg it (read_pending_feedback (feedback (files r1)))) r1))"

text \<open>Whether \<^verbatim>\<open>_handle_exit_code\<close> answers \<open>True\<close> for an exit code.\<close>

definition policy_continues :: "Config \<Rightarrow> int \<Rightarrow> runner \<Rightarrow> bool" where
  "policy_continues cfg exit_code r =
     (exit_code = 0 \<or> (exit_code = 1 \<and> consecutive_failures r + 1 < max_consecutive_failures cfg))"

text \<open>
  Bookkeeping for escalation: the counter of consecutive failures never exceeds the
  number of agent invocations made, and the escalation banner is printed only once
  that number has reached the configured maximum.
\<close>

definition escalation_accounted :: "Config \<Rightarrow> runner \<Rightarrow> bool" where
  "escalation_accounted cfg r =
     (consecutive_failures r \<le> int (length (codex_calls r))
      \<and> (EscalationRequired \<in> set (console r)
           \<longrightarrow> max_consecutive_failures cfg \<le> int (length (codex_calls r))))"

text \<open>
  What a run in which the commit never changes does to the no-progress counter, in
  terms of the agent invocations it makes: the counter grows by one per invocation;
  there are no more invocations than it takes to reach the maximum; and once an
  invocation has been made, the counter is at the maximum exactly when the run has
  ended with 1 from the circuit breaker.
\<close>

definition no_progress_summary :: "Config \<Rightarrow> runner \<Rightarrow> (py_error + int) \<times> runner \<Rightarrow> bool" where
  "no_progress_summary cfg r out =
     (let calls = int (length (codex_calls (snd out))) - int (length (codex_calls r))
      in 0 \<le> calls
       \<and> no_progress_count (snd out) = no_progress_count r + calls
       \<and> calls \<le> max 1 (max_no_progress cfg - no_progress_count r)
       \<and> (calls = 0 \<longrightarrow> fst out \<noteq> Inr 1)
       \<and> (0 < calls \<longrightarrow>
            (max_no_progress cfg \<le> no_progress_count (snd out)) =
            (fst out = Inr 1 \<and> console (snd out) \<noteq> []
               \<and> last (console (snd out)) = CircuitBreakerTriggered)))"

section \<open>Scenarios\<close>

text \<open>
  An iteration in which nobody but the loop touches the project files, with the given
  result of the agent and the given commits before and after it; and a run made of
  such iterations, with the steering documents in place.
\<close>

definition quiet_iteration :: "codex_result \<Rightarrow> string option \<Rightarrow> string option \<Rightarrow> iteration_env" where
  "quiet_iteration res hb ha =
     \<lparr>between_iterations = (\<lambda>p. p),
      task_description = ''Working from steering documents'',
      metrics_at_start = \<lparr>total_lines = 0, file_count = 0\<rparr>,
      clock_at_start = ''2024-01-01T12:00:00'',
      stop_file_exists = False,
      head_before = hb,
      codex = res,
      while_codex_runs = (\<lambda>p. p),
      head_after = ha,
      archive_clock = ''2024-01-01-120500'',
      metrics_at_end = \<lparr>total_lines = 0, file_count = 0\<rparr>,
      clock_at_end = ''2024-01-01T12:05:00''\<rparr>"

definition quiet_env :: "(int \<Rightarrow> iteration_env) \<Rightarrow> run_env" where
  "quiet_env its =
     \<lparr>steering_present = True, iterations = its,
      final_metrics = \<lparr>total_lines = 0, file_count = 0\<rparr>,
      final_clock = ''2024-01-01T13:00:00''\<rparr>"

definition empty_project :: project where
  "empty_project =
     \<lparr>json_store = Map.empty,
      feedback = \<lparr>feedback_dir = False, pending_file = None, archive_dir = False,
                  archive_files = Map.empty\<rparr>\<rparr>"

text \<open>The agent exits 0 every time and never commits.\<close>

definition no_commit_env :: run_env where
  "no_commit_env = quiet_env (\<lambda>i. quiet_iteration (Exited 0) (Some ''abc1234'') (Some ''abc1234''))"

text \<open>The agent never commits, exits 0 twice and reports the project complete the third time.\<close>

definition complete_without_commit_env :: run_env where
  "complete_without_commit_env =
     quiet_env (\<lambda>i. quiet_iteration (if i = 3 then Exited 99 else Exited 0)
                       (Some ''abc1234'') (Some ''abc1234''))"

text \<open>The agent exits 1 every time and never commits.\<close>

definition failing_env :: run_env where
  "failing_env = quiet_env (\<lambda>i. quiet_iteration (Exited 1) (Some ''abc1234'') (Some ''abc1234''))"

text \<open>
  The agent exits 0 with a new commit, and a human posts feedback while it runs; no
  feedback was pending when the iteration started.
\<close>

definition feedback_during_run_env :: run_env where
  "feedback_during_run_env =
     quiet_env (\<lambda>i. (quiet_iteration (Exited 0) (Some ''abc1234'') (Some ''def5678''))
       \<lparr>while_codex_runs := (\<lambda>p. p\<lparr>feedback :=
           post_feedback ''Use the new logo'' HIGH VISUAL ''2024-01-01 12:03:00'' (feedback p)\<rparr>)\<rparr>)"

text \<open>The command of the agent is not installed: no launch succeeds, nothing is committed.\<close>

definition missing_command_env :: run_env where
  "missing_command_env = quiet_env (\<lambda>i. quiet_iteration CommandNotFound None None)"

text \<open>The default configuration with the no-progress circuit breaker out of reach.\<close>

definition patient_config :: Config where
  "patient_config = (default_config [''proj''])\<lparr>max_no_progress := 10\<rparr>"

text \<open>The runner at the head of the loop after two failed iterations of \<open>failing_env\<close>.\<close>

definition after_two_failures :: runner where
  "after_two_failures = the (loop_state patient_config failing_env (new_runner empty_project) 2)"

text \<open>The agent exits 0 every time, and every time the commit has changed.\<close>

definition progress_env :: run_env where
  "progress_env = quiet_env (\<lambda>i. quiet_iteration (Exited 0) (Some ''abc1234'') (Some ''def5678''))"

text \<open>
  Two successive snapshots of a run, and the state file holding the first of them.
\<close>

definition previous_snapshot :: State where
  "previous_snapshot =
     \<lparr>status = RUNNING, iteration = \<lparr>current = 1, specified = 50\<rparr>,
      code_metrics = \<lparr>total_lines = 0, file_count = 0\<rparr>,
      current_task = \<lparr>description = ''Working from steering documents'',
                      task_status = IN_PROGRESS\<rparr>,
      last_output = ''Iteration 1 starting...'', timestamp = ''2024-01-01T12:00:00''\<rparr>"

definition next_snapshot :: State where
  "next_snapshot =
     \<lparr>status = RUNNING, iteration = \<lparr>current = 2, specified = 50\<rparr>,
      code_metrics = \<lparr>total_lines = 40, file_count = 1\<rparr>,
      current_task = \<lparr>description = ''Working from steering documents'',
                      task_status = IN_PROGRESS\<rparr>,
      last_output = ''Iteration 2 starting...'', timestamp = ''2024-01-01T12:05:02''\<rparr>"

definition files_with_previous_snapshot :: json_files where
  "files_with_previous_snapshot =
     save previous_snapshot (state_file (default_config [''proj''])) Map.empty"

section \<open>Lemmas about the model\<close>

subsection \<open>Round trip of the snapshot\<close>

lemma parse_RunStatus_value: "parse_RunStatus (RunStatus_value s) = Some s"
  by (cases s) simp_all

lemma parse_TaskStatus_value: "parse_TaskStatus (TaskStatus_value s) = Some s"
  by (cases s) simp_all

lemma validate_State_model_dump:
  "model_dump s = JObj kvs \<Longrightarrow> validate_State now kvs = Some s"
  by (auto simp: model_dump_def validate_State_def dump_IterationState_def dump_CodeMetrics_def
      dump_TaskInfo_def json_member_def parse_RunStatus_value parse_TaskStatus_value
      simp del: parse_RunStatus.simps parse_TaskStatus.simps)

lemma load_save: "load now p (save s p fs) = Inr (Some s)"
  by (simp add: load_def save_def json_dump_def open_for_writing_def model_dump_def
      validate_State_model_dump [unfolded model_dump_def])

lemma load_open_for_writing: "load now p (open_for_writing p fs) = Inr None"
  by (simp add: load_def open_for_writing_def)

lemma save_steps_eq: "save_steps s p fs = [open_for_writing p fs, save s p fs]"
  by (simp add: save_steps_def save_def)

subsection \<open>Unfolding the loop\<close>

lemma run_loop_finished:
  "\<not> it < max_iterations cfg \<Longrightarrow>
   run_loop cfg env it r =
     (Inr 2,
      write_state cfg STOPPED (max_iterations cfg) ''Max iterations reached'' PENDING
        ''Maximum iterations reached - human review required''
        (final_metrics env) (final_clock env)
        (r\<lparr>console := console r @ [MaxIterationsReached]\<rparr>))"
  by (simp add: run_loop.simps)

lemma run_loop_Continue:
  "it < max_iterations cfg \<Longrightarrow>
   run_iteration cfg (iterations env (it + 1)) (it + 1) r = (Continue, r1) \<Longrightarrow>
   run_loop cfg env it r = run_loop cfg env (it + 1) r1"
  by (subst run_loop.simps) simp

lemma run_loop_Return:
  "it < max_iterations cfg \<Longrightarrow>
   run_iteration cfg (iterations env (it + 1)) (it + 1) r = (Return code, r1) \<Longrightarrow>
   run_loop cfg env it r = (Inr code, r1)"
  by (subst run_loop.simps) simp

lemma run_loop_Raise:
  "it < max_iterations cfg \<Longrightarrow>
   run_iteration cfg (iterations env (it + 1)) (it + 1) r = (Raise err, r1) \<Longrightarrow>
   run_loop cfg env it r = (Inl err, r1)"
  by (subst run_loop.simps) simp

subsection \<open>The exit-code policy, code by code\<close>

lemma archive_feedback_pending:
  "has_pending_feedback fb \<Longrightarrow>
   archive_feedback stamp fb =
     (Inr (Some (stamp @ ''.md'')),
      fb\<lparr>feedback_dir := True, archive_dir := True, pending_file := None,
         archive_files := (archive_files fb)(stamp @ ''.md'' \<mapsto> the (pending_file fb))\<rparr>)"
  by (auto simp: archive_feedback_def has_pending_feedback_def rename_pending_def Let_def)

lemma archive_feedback_no_raise: "\<exists>a. fst (archive_feedback stamp fb) = Inr a"
  by (cases "has_pending_feedback fb") (simp_all add: archive_feedback_pending, simp add: archive_feedback_def)

lemma handle_exit_code_0:
  "handle_exit_code cfg stamp 0 it cb ca r =
     (Inr True,
      r\<lparr>consecutive_failures := 0,
        files := (files r)\<lparr>feedback :=
          (if cb \<noteq> ca then snd (archive_feedback stamp (feedback (files r)))
           else feedback (files r))\<rparr>\<rparr>)"
proof (cases "has_pending_feedback (feedback (files r))")
  case True
  then show ?thesis
    by (simp add: handle_exit_code_def archive_feedback_pending)
next
  case False
  then show ?thesis
    by (simp add: handle_exit_code_def archive_feedback_def)
qed

lemma handle_exit_code_99:
  "handle_exit_code cfg stamp 99 it cb ca r = (Inr False, r\<lparr>console := console r @ [ProjectComplete]\<rparr>)"
  by (simp add: handle_exit_code_def)

lemma handle_exit_code_1:
  "handle_exit_code cfg stamp 1 it cb ca r =
     (Inr (consecutive_failures r + 1 < max_consecutive_failures cfg),
      r\<lparr>consecutive_failures := consecutive_failures r + 1,
        console := console r @
          (if max_consecutive_failures cfg \<le> consecutive_failures r + 1 then [EscalationRequired]
           else [])\<rparr>)"
  by (simp add: handle_exit_code_def Let_def)

lemma handle_exit_code_unknown:
  "exit_code \<noteq> 0 \<Longrightarrow> exit_code \<noteq> 99 \<Longrightarrow> exit_code \<noteq> 1 \<Longrightarrow>
   handle_exit_code cfg stamp exit_code it cb ca r =
     (Inr False, r\<lparr>console := console r @ [UnknownExitCode exit_code]\<rparr>)"
  by (simp add: handle_exit_code_def)

subsection \<open>One pass of the loop, case by case\<close>

lemma run_codex_eq:
  "run_codex e p r =
     (codex_exit_code e, r\<lparr>codex_calls := codex_calls r @ [p], files := while_codex_runs e (files r)\<rparr>)"
  by (simp add: run_codex_def codex_exit_code_def Let_def split: codex_result.splits)

lemma after_codex_simps:
  "consecutive_failures (after_codex cfg e it r) = consecutive_failures r"
  "no_progress_count (after_codex cfg e it r) = no_progress_count r"
  "console (after_codex cfg e it r) = console r"
  "codex_calls (after_codex cfg e it r) =
     codex_calls r @ [build_prompt cfg it (read_pending_feedback (feedback (between_iterations e (files r))))]"
  by (simp_all add: after_codex_def run_codex_eq write_state_def Let_def)

lemma run_iteration_zero_interval:
  "checkpoint_interval cfg = 0 \<Longrightarrow>
   run_iteration cfg e it r = (Raise ZeroDivisionError, r\<lparr>files := between_iterations e (files r)\<rparr>)"
  by (simp add: run_iteration_def)

lemma run_iteration_stop_file:
  "checkpoint_interval cfg \<noteq> 0 \<Longrightarrow> stop_file_exists e \<Longrightarrow>
   run_iteration cfg e it r =
     (Return 0,
      (write_state cfg RUNNING it (task_description e) IN_PROGRESS
         (''Iteration '' @ str_int it @ '' starting...'')
         (metrics_at_start e) (clock_at_start e)
         (r\<lparr>files := between_iterations e (files r)\<rparr>))\<lparr>console := console r @ [StopFileDetected]\<rparr>)"
  by (simp add: run_iteration_def check_stop_file_def write_state_def Let_def)

lemma run_iteration_invoked:
  assumes "checkpoint_interval cfg \<noteq> 0" and "\<not> stop_file_exists e"
  shows "run_iteration cfg e it r =
     (if head_before e = head_after e then
        if max_no_progress cfg \<le> no_progress_count r + 1 then
          (Return 1, (after_codex cfg e it r)\<lparr>no_progress_count := no_progress_count r + 1,
                        console := console r @ [CircuitBreakerTriggered]\<rparr>)
        else finish_iteration cfg e it (codex_exit_code e) (head_before e) (head_after e)
               ((after_codex cfg e it r)\<lparr>no_progress_count := no_progress_count r + 1\<rparr>)
      else finish_iteration cfg e it (codex_exit_code e) (head_before e) (head_after e)
             ((after_codex cfg e it r)\<lparr>no_progress_count := 0\<rparr>))"
  using assms
  by (simp add: run_iteration_def check_stop_file_def after_codex_def run_codex_eq Let_def
      write_state_def)

lemma handle_exit_code_fst:
  "fst (handle_exit_code cfg stamp exit_code it cb ca r) = Inr (policy_continues cfg exit_code r)"
proof -
  consider "exit_code = 0" | "exit_code = 99" | "exit_code = 1"
    | "exit_code \<noteq> 0" "exit_code \<noteq> 99" "exit_code \<noteq> 1"
    by blast
  then show ?thesis
    by cases
      (simp_all add: handle_exit_code_0 handle_exit_code_99 handle_exit_code_1
        handle_exit_code_unknown policy_continues_def)
qed

lemma handle_exit_code_snd:
  "consecutive_failures (snd (handle_exit_code cfg stamp exit_code it cb ca r)) =
     (if exit_code = 0 then 0
      else if exit_code = 1 then consecutive_failures r + 1
      else consecutive_failures r)"
  "no_progress_count (snd (handle_exit_code cfg stamp exit_code it cb ca r)) = no_progress_count r"
  "codex_calls (snd (handle_exit_code cfg stamp exit_code it cb ca r)) = codex_calls r"
  "json_store (files (snd (handle_exit_code cfg stamp exit_code it cb ca r))) = json_store (files r)"
  "console (snd (handle_exit_code cfg stamp exit_code it cb ca r)) =
     console r @
       (if exit_code = 0 then []
        else if exit_code = 99 then [ProjectComplete]
        else if exit_code = 1 then
          (if max_consecutive_failures cfg \<le> consecutive_failures r + 1 then [EscalationRequired]
           else [])
        else [UnknownExitCode exit_code])"
  "feedback (files (snd (handle_exit_code cfg stamp exit_code it cb ca r))) =
     (if exit_code = 0 \<and> cb \<noteq> ca then snd (archive_feedback stamp (feedback (files r)))
      else feedback (files r))"
proof -
  consider "exit_code = 0" | "exit_code = 99" | "exit_code = 1"
    | "exit_code \<noteq> 0" "exit_code \<noteq> 99" "exit_code \<noteq> 1"
    by blast
  note c = this
  show "consecutive_failures (snd (handle_exit_code cfg stamp exit_code it cb ca r)) =
     (if exit_code = 0 then 0
      else if exit_code = 1 then consecutive_failures r + 1
      else consecutive_failures r)"
    using c by cases
      (simp_all add: handle_exit_code_0 handle_exit_code_99 handle_exit_code_1 handle_exit_code_unknown)
  show "no_progress_count (snd (handle_exit_code cfg stamp exit_code it cb ca r)) = no_progress_count r"
    using c by cases
      (simp_all add: handle_exit_code_0 handle_exit_code_99 handle_exit_code_1 handle_exit_code_unknown)
  show "codex_calls (snd (handle_exit_code cfg stamp exit_code it cb ca r)) = codex_calls r"
    using c by cases
      (simp_all add: handle_exit_code_0 handle_exit_code_99 handle_exit_code_1 handle_exit_code_unknown)
  show "json_store (files (snd (handle_exit_code cfg stamp exit_code it cb ca r))) = json_store (files r)"
    using c by cases
      (simp_all add: handle_exit_code_0 handle_exit_code_99 handle_exit_code_1 handle_exit_code_unknown)
  show "console (snd (handle_exit_code cfg stamp exit_code it cb ca r)) =
     console r @
       (if exit_code = 0 then []
        else if exit_code = 99 then [ProjectComplete]
        else if exit_code = 1 then
          (if max_consecutive_failures cfg \<le> consecutive_failures r + 1 then [EscalationRequired]
           else [])
        else [UnknownExitCode exit_code])"
    using c by cases
      (simp_all add: handle_exit_code_0 handle_exit_code_99 handle_exit_code_1 handle_exit_code_unknown)
  show "feedback (files (snd (handle_exit_code cfg stamp exit_code it cb ca r))) =
     (if exit_code = 0 \<and> cb \<noteq> ca then snd (archive_feedback stamp (feedback (files r)))
      else feedback (files r))"
    using c by cases
      (simp_all add: handle_exit_code_0 handle_exit_code_99 handle_exit_code_1 handle_exit_code_unknown)
qed

lemma write_state_simps:
  "consecutive_failures (write_state cfg st it d ts out m now r) = consecutive_failures r"
  "no_progress_count (write_state cfg st it d ts out m now r) = no_progress_count r"
  "codex_calls (write_state cfg st it d ts out m now r) = codex_calls r"
  "console (write_state cfg st it d ts out m now r) = console r"
  "feedback (files (write_state cfg st it d ts out m now r)) = feedback (files r)"
  by (simp_all add: write_state_def Let_def)

lemma read_state_write_state:
  "read_state cfg now' (write_state cfg st it d ts out m now r) =
     Inr (Some \<lparr>status = st, iteration = \<lparr>current = it, specified = max_iterations cfg\<rparr>,
                code_metrics = m, current_task = \<lparr>description = d, task_status = ts\<rparr>,
                last_output = out, timestamp = now\<rparr>)"
  by (simp add: read_state_def write_state_def Let_def load_save)

lemma finish_iteration_eq:
  "finish_iteration cfg e it exit_code cb ca r =
     (let h = snd (handle_exit_code cfg (archive_clock e) exit_code it cb ca r)
      in if \<not> policy_continues cfg exit_code r then
           (Return (if exit_code = 0 \<or> exit_code = 99 then 0 else exit_code),
            write_state cfg STOPPED it (task_description e) COMPLETED ''Run completed''
              (metrics_at_end e) (clock_at_end e) h)
         else if it mod checkpoint_interval cfg = 0 then
           (Return 2,
            write_state cfg STOPPED it (task_description e) PENDING
              (''Checkpoint '' @ str_int (it div checkpoint_interval cfg) @ '' - paused for review'')
              (metrics_at_end e) (clock_at_end e)
              (h\<lparr>console := console h @ [CheckpointReached (it div checkpoint_interval cfg)]\<rparr>))
         else (Continue, h))"
proof -
  obtain x h where eq: "handle_exit_code cfg (archive_clock e) exit_code it cb ca r = (x, h)"
    by (cases "handle_exit_code cfg (archive_clock e) exit_code it cb ca r")
  have "x = Inr (policy_continues cfg exit_code r)"
    using handle_exit_code_fst [of cfg "archive_clock e" exit_code it cb ca r] eq by simp
  with eq show ?thesis
    by (simp add: finish_iteration_def)
qed

lemma finish_iteration_simps:
  "no_progress_count (snd (finish_iteration cfg e it exit_code cb ca r)) = no_progress_count r"
  "codex_calls (snd (finish_iteration cfg e it exit_code cb ca r)) = codex_calls r"
  "consecutive_failures (snd (finish_iteration cfg e it exit_code cb ca r)) =
     (if exit_code = 0 then 0
      else if exit_code = 1 then consecutive_failures r + 1
      else consecutive_failures r)"
  by (simp_all add: finish_iteration_eq Let_def write_state_simps handle_exit_code_snd)

lemma finish_iteration_fst:
  "fst (finish_iteration cfg e it exit_code cb ca r) =
     (if \<not> policy_continues cfg exit_code r then
        Return (if exit_code = 0 \<or> exit_code = 99 then 0 else exit_code)
      else if it mod checkpoint_interval cfg = 0 then Return 2
      else Continue)"
  by (simp add: finish_iteration_eq Let_def)

lemma finish_iteration_console:
  "console (snd (finish_iteration cfg e it exit_code cb ca r)) =
     console r @
       (if exit_code = 0 then []
        else if exit_code = 99 then [ProjectComplete]
        else if exit_code = 1 then
          (if max_consecutive_failures cfg \<le> consecutive_failures r + 1 then [EscalationRequired]
           else [])
        else [UnknownExitCode exit_code]) @
       (if policy_continues cfg exit_code r \<and> it mod checkpoint_interval cfg = 0
        then [CheckpointReached (it div checkpoint_interval cfg)] else [])"
  by (simp add: finish_iteration_eq Let_def write_state_simps handle_exit_code_snd)

subsection \<open>The counters across a pass and across the loop\<close>

lemma run_iteration_no_progress:
  assumes "head_before e = head_after e" and "run_iteration cfg e it r = (s, r1)"
  shows "(length (codex_calls r1) = length (codex_calls r) \<and> no_progress_count r1 = no_progress_count r
            \<and> s \<noteq> Continue \<and> s \<noteq> Return 1)
       \<or> (length (codex_calls r1) = length (codex_calls r) + 1
            \<and> no_progress_count r1 = no_progress_count r + 1
            \<and> (if max_no_progress cfg \<le> no_progress_count r1
                then s = Return 1 \<and> console r1 \<noteq> [] \<and> last (console r1) = CircuitBreakerTriggered
                else \<not> (s = Return 1 \<and> console r1 \<noteq> [] \<and> last (console r1) = CircuitBreakerTriggered)))"
proof (cases "checkpoint_interval cfg = 0")
  case True
  with assms show ?thesis by (auto simp: run_iteration_zero_interval)
next
  case ci: False
  show ?thesis
  proof (cases "stop_file_exists e")
    case True
    with ci assms show ?thesis
      by (auto simp: run_iteration_stop_file write_state_simps)
  next
    case False
    show ?thesis
    proof (cases "max_no_progress cfg \<le> no_progress_count r + 1")
      case True
      with ci False assms show ?thesis
        by (auto simp: run_iteration_invoked after_codex_simps)
    next
      case nf: False
      let ?r = "(after_codex cfg e it r)\<lparr>no_progress_count := no_progress_count r + 1\<rparr>"
      have eq: "finish_iteration cfg e it (codex_exit_code e) (head_before e) (head_after e) ?r = (s, r1)"
        using ci False nf assms by (simp add: run_iteration_invoked)
      have s: "s = fst (finish_iteration cfg e it (codex_exit_code e) (head_before e) (head_after e) ?r)"
        and r1: "r1 = snd (finish_iteration cfg e it (codex_exit_code e) (head_before e) (head_after e) ?r)"
        using eq by simp_all
      have a: "length (codex_calls r1) = length (codex_calls r) + 1"
        by (simp add: r1 finish_iteration_simps after_codex_simps)
      have b: "no_progress_count r1 = no_progress_count r + 1"
        by (simp add: r1 finish_iteration_simps after_codex_simps)
      have c: "\<not> (s = Return 1 \<and> console r1 \<noteq> [] \<and> last (console r1) = CircuitBreakerTriggered)"
        unfolding s r1
        by (auto simp: finish_iteration_fst finish_iteration_console policy_continues_def
            after_codex_simps split: if_splits)
      from a b c nf show ?thesis by simp
    qed
  qed
qed

lemma loop_state_run_loop:
  "loop_state cfg env r0 n = Some r \<Longrightarrow> run_loop cfg env 0 r0 = run_loop cfg env (int n) r"
proof (induction n arbitrary: r)
  case 0
  then show ?case by simp
next
  case (Suc n)
  from Suc.prems obtain r' where
    st: "loop_state cfg env r0 n = Some r'" and lt: "int n < max_iterations cfg"
    and it: "run_iteration cfg (iterations env (int n + 1)) (int n + 1) r' = (Continue, r)"
    by (auto split: option.splits if_splits prod.splits step.splits)
  have "run_loop cfg env 0 r0 = run_loop cfg env (int n) r'"
    using Suc.IH [OF st] .
  also have "\<dots> = run_loop cfg env (int n + 1) r"
    using run_loop_Continue [OF lt it] .
  finally show ?case by (simp add: add.commute)
qed

lemma run_iteration_exit_99:
  assumes "checkpoint_interval cfg \<noteq> 0" and "\<not> stop_file_exists e" and "codex e = Exited 99"
  shows "fst (run_iteration cfg e it r) =
           Return (if head_before e = head_after e \<and> max_no_progress cfg \<le> no_progress_count r + 1
                   then 1 else 0)"
    and "length (codex_calls (snd (run_iteration cfg e it r))) = length (codex_calls r) + 1"
    and "last (console (snd (run_iteration cfg e it r))) =
           (if head_before e = head_after e \<and> max_no_progress cfg \<le> no_progress_count r + 1
            then CircuitBreakerTriggered else ProjectComplete)"
proof -
  have ec: "codex_exit_code e = 99"
    using assms(3) by (simp add: codex_exit_code_def)
  show "fst (run_iteration cfg e it r) =
           Return (if head_before e = head_after e \<and> max_no_progress cfg \<le> no_progress_count r + 1
                   then 1 else 0)"
    using assms(1,2)
    by (simp add: run_iteration_invoked ec finish_iteration_fst policy_continues_def)
  show "length (codex_calls (snd (run_iteration cfg e it r))) = length (codex_calls r) + 1"
    using assms(1,2)
    by (simp add: run_iteration_invoked ec finish_iteration_simps after_codex_simps)
  show "last (console (snd (run_iteration cfg e it r))) =
           (if head_before e = head_after e \<and> max_no_progress cfg \<le> no_progress_count r + 1
            then CircuitBreakerTriggered else ProjectComplete)"
    using assms(1,2)
    by (simp add: run_iteration_invoked ec finish_iteration_console after_codex_simps
        policy_continues_def)
qed

lemma run_loop_stops:
  assumes "it < max_iterations cfg"
    and "fst (run_iteration cfg (iterations env (it + 1)) (it + 1) r) = Return code"
  shows "run_loop cfg env it r = (Inr code, snd (run_iteration cfg (iterations env (it + 1)) (it + 1) r))"
proof -
  have "run_iteration cfg (iterations env (it + 1)) (it + 1) r
      = (Return code, snd (run_iteration cfg (iterations env (it + 1)) (it + 1) r))"
    using assms(2) by (metis prod.collapse)
  then show ?thesis
    using run_loop_Return [OF assms(1)] by blast
qed

lemma run_iteration_consecutive_failures:
  "(consecutive_failures (snd (run_iteration cfg e it r)) = consecutive_failures r
      \<and> fst (run_iteration cfg e it r) \<noteq> Return 1)
   \<or> (consecutive_failures (snd (run_iteration cfg e it r)) = consecutive_failures r
      \<and> fst (run_iteration cfg e it r) = Return 1
      \<and> last (console (snd (run_iteration cfg e it r))) = CircuitBreakerTriggered)
   \<or> (consecutive_failures (snd (run_iteration cfg e it r)) = 0 \<and> codex_exit_code e = 0
      \<and> fst (run_iteration cfg e it r) \<noteq> Return 1)
   \<or> (consecutive_failures (snd (run_iteration cfg e it r)) = consecutive_failures r + 1
      \<and> codex_exit_code e = 1
      \<and> length (codex_calls (snd (run_iteration cfg e it r))) = length (codex_calls r) + 1
      \<and> (if max_consecutive_failures cfg \<le> consecutive_failures r + 1
          then fst (run_iteration cfg e it r) = Return 1
             \<and> last (console (snd (run_iteration cfg e it r))) = EscalationRequired
          else fst (run_iteration cfg e it r) \<noteq> Return 1))"
proof (cases "checkpoint_interval cfg = 0")
  case True
  then show ?thesis by (simp add: run_iteration_zero_interval)
next
  case ci: False
  show ?thesis
  proof (cases "stop_file_exists e")
    case True
    with ci show ?thesis by (simp add: run_iteration_stop_file write_state_simps)
  next
    case False
    note inv = run_iteration_invoked [OF ci False]
    consider "codex_exit_code e = 0" | "codex_exit_code e = 99" | "codex_exit_code e = 1"
      | "codex_exit_code e \<noteq> 0" "codex_exit_code e \<noteq> 99" "codex_exit_code e \<noteq> 1"
      by blast
    then show ?thesis
      by cases
        (simp_all add: inv finish_iteration_simps finish_iteration_fst finish_iteration_console
          after_codex_simps policy_continues_def)
  qed
qed

lemma loop_state_Suc:
  assumes "loop_state cfg env r0 (Suc n) = Some r"
  obtains r' where "loop_state cfg env r0 n = Some r'" and "int n < max_iterations cfg"
    and "run_iteration cfg (iterations env (int n + 1)) (int n + 1) r' = (Continue, r)"
  using assms by (auto split: option.splits if_splits prod.splits step.splits)

lemma loop_state_consecutive_failures:
  assumes "1 \<le> max_consecutive_failures cfg"
    and "consecutive_failures r0 < max_consecutive_failures cfg"
    and "loop_state cfg env r0 n = Some r"
  shows "consecutive_failures r < max_consecutive_failures cfg"
  using assms(3)
proof (induction n arbitrary: r)
  case 0
  with assms(2) show ?case by simp
next
  case (Suc n)
  from Suc.prems obtain r' where st: "loop_state cfg env r0 n = Some r'"
    and it: "run_iteration cfg (iterations env (int n + 1)) (int n + 1) r' = (Continue, r)"
    by (rule loop_state_Suc)
  have lt: "consecutive_failures r' < max_consecutive_failures cfg"
    using Suc.IH [OF st] .
  show ?case
    using run_iteration_consecutive_failures [of cfg "iterations env (int n + 1)" "int n + 1" r']
      lt assms(1)
    by (auto simp: it split: if_splits)
qed

lemmas loop_state_2 = loop_state.simps(2) [of _ _ _ "Suc 0", folded numeral_2_eq_2]
  loop_state.simps(2) [of _ _ _ 0] loop_state.simps(1)

lemma run_iteration_escalation_accounted:
  assumes "escalation_accounted cfg r"
  shows "escalation_accounted cfg (snd (run_iteration cfg e it r))"
proof (cases "checkpoint_interval cfg = 0")
  case True
  with assms show ?thesis by (simp add: run_iteration_zero_interval escalation_accounted_def)
next
  case ci: False
  show ?thesis
  proof (cases "stop_file_exists e")
    case True
    with ci assms show ?thesis
      by (simp add: run_iteration_stop_file write_state_simps escalation_accounted_def)
  next
    case False
    note inv = run_iteration_invoked [OF ci False]
    consider "codex_exit_code e = 0" | "codex_exit_code e = 99" | "codex_exit_code e = 1"
      | "codex_exit_code e \<noteq> 0" "codex_exit_code e \<noteq> 99" "codex_exit_code e \<noteq> 1"
      by blast
    then show ?thesis
      using assms
      by cases
        (auto simp: inv finish_iteration_simps finish_iteration_console
          after_codex_simps escalation_accounted_def)
  qed
qed

lemma run_loop_escalation_accounted:
  "escalation_accounted cfg r \<Longrightarrow> escalation_accounted cfg (snd (run_loop cfg env it r))"
proof (induction cfg env it r rule: run_loop.induct)
  case (1 cfg env it r)
  show ?case
  proof (cases "it < max_iterations cfg")
    case False
    with "1.prems" show ?thesis
      by (simp add: run_loop_finished write_state_simps escalation_accounted_def)
  next
    case True
    obtain s r1 where eq: "run_iteration cfg (iterations env (it + 1)) (it + 1) r = (s, r1)"
      by (cases "run_iteration cfg (iterations env (it + 1)) (it + 1) r")
    have acc: "escalation_accounted cfg r1"
      using run_iteration_escalation_accounted [OF "1.prems", of "iterations env (it + 1)" "it + 1"]
      by (simp add: eq)
    show ?thesis
    proof (cases s)
      case Continue
      with eq True "1.IH" acc show ?thesis
        by (simp add: run_loop_Continue)
    next
      case (Return code)
      with eq True acc show ?thesis
        by (simp add: run_loop_Return)
    next
      case (Raise err)
      with eq True acc show ?thesis
        by (simp add: run_loop_Raise)
    qed
  qed
qed

lemma run_loop_no_progress:
  assumes "\<forall>i. head_before (iterations env i) = head_after (iterations env i)"
  shows "no_progress_summary cfg r (run_loop cfg env it r)"
  using assms
proof (induction cfg env it r rule: run_loop.induct)
  case (1 cfg env it r)
  show ?case
  proof (cases "it < max_iterations cfg")
    case False
    then show ?thesis
      by (simp add: run_loop_finished write_state_simps no_progress_summary_def)
  next
    case True
    let ?e = "iterations env (it + 1)"
    obtain s r1 where eq: "run_iteration cfg ?e (it + 1) r = (s, r1)"
      by (cases "run_iteration cfg ?e (it + 1) r")
    have same: "head_before ?e = head_after ?e"
      using "1.prems" by simp
    note step = run_iteration_no_progress [OF same eq]
    show ?thesis
    proof (cases s)
      case Continue
      have ih: "no_progress_summary cfg r1 (run_loop cfg env (it + 1) r1)"
        using "1.IH" [OF True eq [symmetric] Continue "1.prems"] .
      have r1: "length (codex_calls r1) = length (codex_calls r) + 1"
        "no_progress_count r1 = no_progress_count r + 1"
        "\<not> max_no_progress cfg \<le> no_progress_count r1"
        using step Continue by (auto split: if_splits)
      have "run_loop cfg env it r = run_loop cfg env (it + 1) r1"
        using run_loop_Continue [OF True] eq Continue by simp
      then show ?thesis
        using ih r1 by (auto simp: no_progress_summary_def Let_def)
    next
      case (Return code)
      have "run_loop cfg env it r = (Inr code, r1)"
        using run_loop_Return [OF True] eq Return by simp
      then show ?thesis
        using step Return by (auto simp: no_progress_summary_def Let_def split: if_splits)
    next
      case (Raise err)
      have "run_loop cfg env it r = (Inl err, r1)"
        using run_loop_Raise [OF True] eq Raise by simp
      then show ?thesis
        using step Raise by (auto simp: no_progress_summary_def Let_def split: if_splits)
    qed
  qed
qed

lemma run_iteration_progress_resets:
  assumes "checkpoint_interval cfg \<noteq> 0" and "\<not> stop_file_exists e"
    and "head_before e \<noteq> head_after e"
  shows "no_progress_count (snd (run_iteration cfg e it r)) = 0"
  using assms by (simp add: run_iteration_invoked finish_iteration_simps)

lemma run_iteration_success_with_commit:
  assumes "checkpoint_interval cfg \<noteq> 0" and "\<not> stop_file_exists e"
    and "codex e = Exited 0" and "head_before e \<noteq> head_after e"
  shows "fst (run_iteration cfg e it r) =
           (if it mod checkpoint_interval cfg = 0 then Return 2 else Continue)"
    and "length (codex_calls (snd (run_iteration cfg e it r))) = length (codex_calls r) + 1"
    and "console (snd (run_iteration cfg e it r)) =
           console r @ (if it mod checkpoint_interval cfg = 0
                        then [CheckpointReached (it div checkpoint_interval cfg)] else [])"
    and "it mod checkpoint_interval cfg = 0 \<Longrightarrow>
         read_state cfg now (snd (run_iteration cfg e it r)) =
           Inr (Some \<lparr>status = STOPPED,
                      iteration = \<lparr>current = it, specified = max_iterations cfg\<rparr>,
                      code_metrics = metrics_at_end e,
                      current_task = \<lparr>description = task_description e, task_status = PENDING\<rparr>,
                      last_output = ''Checkpoint '' @ str_int (it div checkpoint_interval cfg)
                                      @ '' - paused for review'',
                      timestamp = clock_at_end e\<rparr>)"
proof -
  have ec: "codex_exit_code e = 0"
    using assms(3) by (simp add: codex_exit_code_def)
  note inv = run_iteration_invoked [OF assms(1,2)]
  show "fst (run_iteration cfg e it r) =
           (if it mod checkpoint_interval cfg = 0 then Return 2 else Continue)"
    using assms(4) by (simp add: inv ec finish_iteration_fst policy_continues_def)
  show "length (codex_calls (snd (run_iteration cfg e it r))) = length (codex_calls r) + 1"
    using assms(4) by (simp add: inv ec finish_iteration_simps after_codex_simps)
  show "console (snd (run_iteration cfg e it r)) =
           console r @ (if it mod checkpoint_interval cfg = 0
                        then [CheckpointReached (it div checkpoint_interval cfg)] else [])"
    using assms(4)
    by (simp add: inv ec finish_iteration_console after_codex_simps policy_continues_def)
  show "read_state cfg now (snd (run_iteration cfg e it r)) =
           Inr (Some \<lparr>status = STOPPED,
                      iteration = \<lparr>current = it, specified = max_iterations cfg\<rparr>,
                      code_metrics = metrics_at_end e,
                      current_task = \<lparr>description = task_description e, task_status = PENDING\<rparr>,
                      last_output = ''Checkpoint '' @ str_int (it div checkpoint_interval cfg)
                                      @ '' - paused for review'',
                      timestamp = clock_at_end e\<rparr>)"
    if "it mod checkpoint_interval cfg = 0"
    using assms(4) that
    by (simp add: inv ec finish_iteration_eq policy_continues_def Let_def read_state_write_state)
qed

lemma loop_state_before_checkpoint:
  assumes "checkpoint_interval cfg = 10" and "10 \<le> max_iterations cfg"
    and "\<forall>i\<in>{1..10}. \<not> stop_file_exists (iterations env i)
           \<and> codex (iterations env i) = Exited 0
           \<and> head_before (iterations env i) \<noteq> head_after (iterations env i)"
  shows "k \<le> 9 \<Longrightarrow>
         \<exists>rk. loop_state cfg env r k = Some rk \<and> console rk = console r
            \<and> length (codex_calls rk) = length (codex_calls r) + k"
proof (induction k)
  case 0
  then show ?case by simp
next
  case (Suc k)
  then obtain rk where st: "loop_state cfg env r k = Some rk" and c: "console rk = console r"
    and l: "length (codex_calls rk) = length (codex_calls r) + k"
    by auto
  let ?i = "int k + 1"
  let ?e = "iterations env ?i"
  have rng: "?i \<in> {1..10}" using Suc.prems by simp
  have ci: "checkpoint_interval cfg \<noteq> 0" using assms(1) by simp
  have e: "\<not> stop_file_exists ?e" "codex ?e = Exited 0" "head_before ?e \<noteq> head_after ?e"
    using assms(3) rng by blast+
  have m: "?i mod checkpoint_interval cfg \<noteq> 0"
    using Suc.prems assms(1) by simp
  have lt: "int k < max_iterations cfg"
    using Suc.prems assms(2) by simp
  note step = run_iteration_success_with_commit(1,2,3) [OF ci e, where it = ?i and r = rk]
  obtain s1 r1 where eq: "run_iteration cfg ?e ?i rk = (s1, r1)"
    by (cases "run_iteration cfg ?e ?i rk")
  have s1: "s1 = Continue"
    using step(1) m eq by simp
  have "loop_state cfg env r (Suc k) = Some r1"
    using st lt eq s1 by simp
  then show ?case
    using step(2,3) m c l eq by simp
qed

text \<open>
  When the exit-code policy says stop (project complete, escalation, unknown exit
  code), the final snapshot written before \<^verbatim>\<open>run\<close> returns has status STOPPED.
\<close>

lemma stopping_exit_code_writes_stopped:
  assumes "\<not> policy_continues cfg exit_code r"
  shows "read_state cfg now (snd (finish_iteration cfg e it exit_code cb ca r)) =
           Inr (Some \<lparr>status = STOPPED,
                      iteration = \<lparr>current = it, specified = max_iterations cfg\<rparr>,
                      code_metrics = metrics_at_end e,
                      current_task = \<lparr>description = task_description e, task_status = COMPLETED\<rparr>,
                      last_output = ''Run completed'',
                      timestamp = clock_at_end e\<rparr>)"
  using assms by (simp add: finish_iteration_eq Let_def read_state_write_state)

text \<open>
  What an iteration that invokes the agent does to the feedback store: the store is
  as the agent invocation left it, archived when the exit code is 0 and the commit
  changed (and \<^verbatim>\<open>archive_feedback\<close> archives what is pending at that moment).
\<close>

lemma finish_iteration_feedback:
  "feedback (files (snd (finish_iteration cfg e it exit_code cb ca r))) =
     (if exit_code = 0 \<and> cb \<noteq> ca
      then snd (archive_feedback (archive_clock e) (feedback (files r)))
      else feedback (files r))"
  by (simp add: finish_iteration_eq Let_def write_state_simps handle_exit_code_snd)

lemma run_iteration_feedback:
  assumes "checkpoint_interval cfg \<noteq> 0" and "\<not> stop_file_exists e"
  shows "feedback (files (snd (run_iteration cfg e it r))) =
           (if codex_exit_code e = 0 \<and> head_before e \<noteq> head_after e
            then snd (archive_feedback (archive_clock e) (feedback (files (after_codex cfg e it r))))
            else feedback (files (after_codex cfg e it r)))"
  by (simp add: run_iteration_invoked [OF assms] finish_iteration_feedback)

section \<open>The claims\<close>

lemmas eval_defs = run_def run_loop.simps run_iteration_def finish_iteration_def handle_exit_code_def
  run_codex_def check_stop_file_def write_state_def build_prompt_def read_pending_feedback_def
  has_pending_feedback_def default_config_def quiet_env_def quiet_iteration_def
  new_runner_def empty_project_def Let_def read_state_def load_def save_def json_dump_def
  open_for_writing_def state_file_def
  monitor_dir_def model_dump_def validate_State_def dump_IterationState_def dump_CodeMetrics_def
  dump_TaskInfo_def json_member_def str_int_def str_nat.simps archive_feedback_def rename_pending_def
  post_feedback_def

subsection \<open>The state snapshot\<close>

text \<open>
  Claim C6. Saving the state with status running, iteration 5 of 50, code metrics of
  1200 lines in 10 files and the task "Implement auth" in progress, and loading the
  same path again, gives back a state with exactly these fields (and the same last
  output and timestamp, whatever they are).
\<close>

theorem save_load_round_trip:
  "load now p
     (save \<lparr>status = RUNNING, iteration = \<lparr>current = 5, specified = 50\<rparr>,
            code_metrics = \<lparr>total_lines = 1200, file_count = 10\<rparr>,
            current_task = \<lparr>description = ''Implement auth'', task_status = IN_PROGRESS\<rparr>,
            last_output = out, timestamp = ts\<rparr> p fs)
   = Inr (Some \<lparr>status = RUNNING, iteration = \<lparr>current = 5, specified = 50\<rparr>,
            code_metrics = \<lparr>total_lines = 1200, file_count = 10\<rparr>,
            current_task = \<lparr>description = ''Implement auth'', task_status = IN_PROGRESS\<rparr>,
            last_output = out, timestamp = ts\<rparr>)"
  by (simp add: load_def save_def json_dump_def open_for_writing_def model_dump_def
      validate_State_def dump_IterationState_def dump_CodeMetrics_def dump_TaskInfo_def
      json_member_def)

text \<open>
  Claim C9, as stated, fails: \<^verbatim>\<open>State.save\<close> does not replace the file atomically.
  With the snapshot of iteration 1 in the state file, the save of the snapshot of
  iteration 2 first leaves the file truncated, and a reader that loads it then gets
  neither the previous snapshot nor the new one, but \<open>None\<close>.
\<close>

theorem save_exposes_truncated_file:
  "load ''2024-01-01T12:05:03'' (state_file (default_config [''proj'']))
     files_with_previous_snapshot = Inr (Some previous_snapshot)
   \<and> load ''2024-01-01T12:05:03'' (state_file (default_config [''proj'']))
       (hd (save_steps next_snapshot (state_file (default_config [''proj'']))
              files_with_previous_snapshot)) = Inr None
   \<and> load ''2024-01-01T12:05:03'' (state_file (default_config [''proj'']))
       (hd (save_steps next_snapshot (state_file (default_config [''proj'']))
              files_with_previous_snapshot)) \<noteq> Inr (Some previous_snapshot)
   \<and> load ''2024-01-01T12:05:03'' (state_file (default_config [''proj'']))
       (hd (save_steps next_snapshot (state_file (default_config [''proj'']))
              files_with_previous_snapshot)) \<noteq> Inr (Some next_snapshot)
   \<and> last (save_steps next_snapshot (state_file (default_config [''proj'']))
              files_with_previous_snapshot)
       = save next_snapshot (state_file (default_config [''proj''])) files_with_previous_snapshot"
  by (simp add: save_steps_eq files_with_previous_snapshot_def load_save load_open_for_writing)

text \<open>
  Claim C9, amended. \<^verbatim>\<open>State.save\<close> overwrites the snapshot file in place: it
  truncates the file and then writes the new document. A reader that polls while a
  save is under way finds either the truncated or partly written file, which
  \<^verbatim>\<open>State.load\<close> returns as \<open>None\<close> without raising and which the dashboard shows as
  the waiting state, or, once the save is complete, the whole new snapshot.
\<close>

theorem save_truncates_then_writes:
  "save_steps s p fs = [open_for_writing p fs, save s p fs]
   \<and> map (load now p) (save_steps s p fs) = [Inr None, Inr (Some s)]
   \<and> DevMonitor_read_state cfg now (open_for_writing (state_file cfg) fs)
       = Inr (create_waiting (max_iterations cfg) now)
   \<and> DevMonitor_read_state cfg now (save s (state_file cfg) fs) = Inr s"
  by (simp add: save_steps_eq DevMonitor_read_state_def load_save load_open_for_writing)

subsection \<open>The feedback store\<close>

text \<open>
  Claim C7. With no pending feedback file, \<^verbatim>\<open>archive_feedback\<close> returns \<open>None\<close>,
  raises nothing and leaves the store as it was (no directory and no archive file is
  created); so any number of calls, whatever the clock reads, return \<open>None\<close> each
  time and leave the store unchanged.
\<close>

theorem archive_feedback_nothing_pending:
  assumes "\<not> has_pending_feedback fb"
  shows "archive_feedback stamp fb = (Inr None, fb)
       \<and> archive_repeatedly stamps fb = (replicate (length stamps) (Inr None), fb)"
proof
  show one: "archive_feedback stamp fb = (Inr None, fb)" for stamp
    using assms by (simp add: archive_feedback_def)
  show "archive_repeatedly stamps fb = (replicate (length stamps) (Inr None), fb)"
    by (induction stamps) (simp_all add: one)
qed

theorem archive_feedback_nothing_pending_witness:
  "\<not> has_pending_feedback \<lparr>feedback_dir = False, pending_file = None, archive_dir = False,
                           archive_files = Map.empty\<rparr>
   \<and> archive_feedback ''2024-01-01-120000''
       \<lparr>feedback_dir = False, pending_file = None, archive_dir = False, archive_files = Map.empty\<rparr>
     = (Inr None,
        \<lparr>feedback_dir = False, pending_file = None, archive_dir = False, archive_files = Map.empty\<rparr>)
   \<and> archive_repeatedly [''2024-01-01-120000'', ''2024-01-01-120002'']
       \<lparr>feedback_dir = False, pending_file = None, archive_dir = False, archive_files = Map.empty\<rparr>
     = ([Inr None, Inr None],
        \<lparr>feedback_dir = False, pending_file = None, archive_dir = False, archive_files = Map.empty\<rparr>)"
proof -
  have h: "\<not> has_pending_feedback \<lparr>feedback_dir = False, pending_file = None, archive_dir = False,
                           archive_files = Map.empty\<rparr>"
    by (simp add: has_pending_feedback_def)
  show ?thesis
    using h archive_feedback_nothing_pending [OF h, of "''2024-01-01-120000''"
        "[''2024-01-01-120000'', ''2024-01-01-120002'']"]
    by (simp del: archive_repeatedly.simps)
qed


subsection \<open>Fatal terminations and the final snapshot\<close>

text \<open>
  Claim C1. Every fatal termination writes a final snapshot with status STOPPED before
  \<^verbatim>\<open>run\<close> returns. The circuit breaker does not: with the default configuration and
  an agent that exits 0 three times without committing, \<^verbatim>\<open>run\<close> returns 1 from the
  circuit breaker, and the state file still holds the snapshot written at the start of
  the third iteration, with status RUNNING.
\<close>

theorem circuit_breaker_leaves_running_snapshot:
  "fst (run (default_config [''proj'']) no_commit_env (new_runner empty_project)) = Inr 1
   \<and> console (snd (run (default_config [''proj'']) no_commit_env (new_runner empty_project)))
       = [CircuitBreakerTriggered]
   \<and> read_state (default_config [''proj'']) ''2024-01-01T12:30:00''
        (snd (run (default_config [''proj'']) no_commit_env (new_runner empty_project)))
       = Inr (Some \<lparr>status = RUNNING, iteration = \<lparr>current = 3, specified = 50\<rparr>,
            code_metrics = \<lparr>total_lines = 0, file_count = 0\<rparr>,
            current_task = \<lparr>description = ''Working from steering documents'',
                            task_status = IN_PROGRESS\<rparr>,
            last_output = ''Iteration 3 starting...'', timestamp = ''2024-01-01T12:00:00''\<rparr>)"
  by (simp add: eval_defs no_commit_env_def)

subsection \<open>Exit code 99\<close>

text \<open>
  Claim C2, as stated, fails: with the default configuration and an agent that never
  commits, exits 0 twice and then exits 99, the third iteration is the one in which
  the agent exits 99, and \<^verbatim>\<open>run\<close> returns 1, not 0.
\<close>

theorem exit_code_99_not_always_success:
  "codex (iterations complete_without_commit_env 3) = Exited 99
   \<and> length (codex_calls (snd (run (default_config [''proj'']) complete_without_commit_env
                                 (new_runner empty_project)))) = 3
   \<and> fst (run (default_config [''proj'']) complete_without_commit_env (new_runner empty_project))
       = Inr 1"
  by (simp add: eval_defs complete_without_commit_env_def)

text \<open>
  Claim C2, amended. In an iteration in which the agent exits with code 99, \<^verbatim>\<open>run\<close>
  returns in that iteration, without a further agent invocation and whatever the
  counter of consecutive failures is. It returns 0, with the project-complete banner,
  unless the commit did not change in that iteration and the no-progress counter
  thereby reaches the configured maximum: then the circuit breaker, which is checked
  before the exit code, ends the run with 1.
\<close>

theorem exit_code_99_ends_run:
  assumes "it < max_iterations cfg"
    and "checkpoint_interval cfg \<noteq> 0"
    and "\<not> stop_file_exists (iterations env (it + 1))"
    and "codex (iterations env (it + 1)) = Exited 99"
  shows "fst (run_loop cfg env it r) =
           Inr (if head_before (iterations env (it + 1)) = head_after (iterations env (it + 1))
                   \<and> max_no_progress cfg \<le> no_progress_count r + 1
                then 1 else 0)
       \<and> length (codex_calls (snd (run_loop cfg env it r))) = length (codex_calls r) + 1
       \<and> last (console (snd (run_loop cfg env it r))) =
           (if head_before (iterations env (it + 1)) = head_after (iterations env (it + 1))
                   \<and> max_no_progress cfg \<le> no_progress_count r + 1
            then CircuitBreakerTriggered else ProjectComplete)"
proof -
  let ?e = "iterations env (it + 1)"
  let ?code = "if head_before ?e = head_after ?e \<and> max_no_progress cfg \<le> no_progress_count r + 1
               then 1 else 0 :: int"
  have "fst (run_iteration cfg ?e (it + 1) r) = Return ?code"
    using run_iteration_exit_99(1) [OF assms(2,3,4)] by simp
  then have eq: "run_loop cfg env it r = (Inr ?code, snd (run_iteration cfg ?e (it + 1) r))"
    by (rule run_loop_stops [OF assms(1)])
  show ?thesis
    unfolding eq
    using run_iteration_exit_99(2,3) [OF assms(2,3,4), of "it + 1" r] by simp
qed

theorem exit_code_99_ends_run_witness:
  "(2::int) < max_iterations (default_config [''proj''])
   \<and> checkpoint_interval (default_config [''proj'']) \<noteq> 0
   \<and> \<not> stop_file_exists (iterations complete_without_commit_env (2 + 1))
   \<and> codex (iterations complete_without_commit_env (2 + 1)) = Exited 99
   \<and> fst (run_loop (default_config [''proj'']) complete_without_commit_env 2 (new_runner empty_project))
       = Inr 0
   \<and> length (codex_calls (snd (run_loop (default_config [''proj'']) complete_without_commit_env 2
                                 (new_runner empty_project)))) = 1
   \<and> last (console (snd (run_loop (default_config [''proj'']) complete_without_commit_env 2
                                 (new_runner empty_project)))) = ProjectComplete"
proof -
  have h1: "(2::int) < max_iterations (default_config [''proj''])"
    by (simp add: default_config_def)
  have h2: "checkpoint_interval (default_config [''proj'']) \<noteq> 0"
    by (simp add: default_config_def)
  have h3: "\<not> stop_file_exists (iterations complete_without_commit_env (2 + 1))"
    by (simp add: complete_without_commit_env_def quiet_env_def quiet_iteration_def)
  have h4: "codex (iterations complete_without_commit_env (2 + 1)) = Exited 99"
    by (simp add: complete_without_commit_env_def quiet_env_def quiet_iteration_def)
  have np: "no_progress_count (new_runner empty_project) = 0"
    "codex_calls (new_runner empty_project) = []"
    "max_no_progress (default_config [''proj'']) = 3"
    by (simp_all add: new_runner_def default_config_def)
  show ?thesis
    using h1 h2 h3 h4 exit_code_99_ends_run [OF h1 h2 h3 h4, of "new_runner empty_project"]
    by (simp add: np)
qed

subsection \<open>Archiving feedback from the loop\<close>

text \<open>
  Claim C8. Feedback is archived exactly when the agent exited 0, the commit changed
  and feedback was pending before the agent was invoked. The loop does not look at
  what was pending before: it archives whatever is pending when the exit code is
  handled. In the iteration below nothing is pending at the start, so the prompt
  holds no feedback; a human posts feedback while the agent runs; the agent exits 0
  with a new commit; and the feedback the agent never saw is moved to the archive.
\<close>

theorem feedback_posted_during_run_is_archived:
  "map prompt_feedback (codex_calls (snd (run_iteration (default_config [''proj''])
       (iterations feedback_during_run_env 1) 1 (new_runner empty_project)))) = [None]
   \<and> fst (run_iteration (default_config [''proj''])
       (iterations feedback_during_run_env 1) 1 (new_runner empty_project)) = Continue
   \<and> pending_file (feedback (files (snd (run_iteration (default_config [''proj''])
       (iterations feedback_during_run_env 1) 1 (new_runner empty_project))))) = None
   \<and> archive_files (feedback (files (snd (run_iteration (default_config [''proj''])
       (iterations feedback_during_run_env 1) 1 (new_runner empty_project)))))
         ''2024-01-01-120500.md''
      = pending_file (post_feedback ''Use the new logo'' HIGH VISUAL ''2024-01-01 12:03:00''
          (feedback empty_project))
   \<and> has_pending_feedback (post_feedback ''Use the new logo'' HIGH VISUAL ''2024-01-01 12:03:00''
          (feedback empty_project))"
  by (simp add: eval_defs feedback_during_run_env_def)

subsection \<open>Consecutive failures\<close>

text \<open>
  Claim C3, as stated, fails: the settings are unconstrained integers, and with
  \<^verbatim>\<open>max_consecutive_failures = 0\<close> the first failing iteration raises the counter to
  1, above the configured maximum, before the loop escalates.
\<close>

theorem consecutive_failures_exceed_zero_maximum:
  "max_consecutive_failures ((default_config [''proj''])\<lparr>max_consecutive_failures := 0\<rparr>)
     < consecutive_failures
         (snd (run ((default_config [''proj''])\<lparr>max_consecutive_failures := 0\<rparr>) failing_env
                 (new_runner empty_project)))"
  by (simp add: eval_defs failing_env_def)

text \<open>
  Claim C3, amended. When the configured maximum of consecutive failures is at least 1,
  then in a run of a fresh runner, for every sequence of exit codes: at the head of
  every iteration the counter is below the maximum, and after the iteration it does
  not exceed it; an iteration leaves the counter as it was, or raises it by one, which
  happens only on exit code 1, or resets it to 0, which happens only on exit code 0
  (the exit-code policy resets on 0, adds one on 1 and leaves every other code alone);
  and as soon as the counter reaches the maximum, the run ends in that iteration
  with exit code 1 and the escalation banner, that iteration's agent invocation being
  the last.
\<close>

theorem consecutive_failures_bounded:
  assumes "1 \<le> max_consecutive_failures cfg"
    and "consecutive_failures r0 = 0"
    and "loop_state cfg env r0 n = Some r"
    and "int n < max_iterations cfg"
  shows "consecutive_failures r < max_consecutive_failures cfg
       \<and> consecutive_failures (snd (run_iteration cfg (iterations env (int n + 1)) (int n + 1) r))
           \<le> max_consecutive_failures cfg
       \<and> (consecutive_failures (snd (run_iteration cfg (iterations env (int n + 1)) (int n + 1) r))
            = consecutive_failures r
          \<or> consecutive_failures (snd (run_iteration cfg (iterations env (int n + 1)) (int n + 1) r))
              = consecutive_failures r + 1
            \<and> codex_exit_code (iterations env (int n + 1)) = 1
          \<or> consecutive_failures (snd (run_iteration cfg (iterations env (int n + 1)) (int n + 1) r))
              = 0
            \<and> codex_exit_code (iterations env (int n + 1)) = 0)
       \<and> consecutive_failures (snd (handle_exit_code cfg stamp exit_code k cb ca q))
           = (if exit_code = 0 then 0
              else if exit_code = 1 then consecutive_failures q + 1
              else consecutive_failures q)
       \<and> (consecutive_failures (snd (run_iteration cfg (iterations env (int n + 1)) (int n + 1) r))
            = max_consecutive_failures cfg
          \<longrightarrow> run_loop cfg env 0 r0
                = (Inr 1, snd (run_iteration cfg (iterations env (int n + 1)) (int n + 1) r))
            \<and> last (console (snd (run_iteration cfg (iterations env (int n + 1)) (int n + 1) r)))
                = EscalationRequired
            \<and> length (codex_calls (snd (run_iteration cfg (iterations env (int n + 1)) (int n + 1) r)))
                = length (codex_calls r) + 1)"
proof -
  let ?e = "iterations env (int n + 1)"
  let ?s = "fst (run_iteration cfg ?e (int n + 1) r)"
  let ?r1 = "snd (run_iteration cfg ?e (int n + 1) r)"
  have lt: "consecutive_failures r < max_consecutive_failures cfg"
    using loop_state_consecutive_failures [OF assms(1) _ assms(3)] assms(1,2) by simp
  note step = run_iteration_consecutive_failures [of cfg ?e "int n + 1" r]
  have le: "consecutive_failures ?r1 \<le> max_consecutive_failures cfg"
    using step lt assms(1) by (auto split: if_splits)
  have how: "consecutive_failures ?r1 = consecutive_failures r
          \<or> consecutive_failures ?r1 = consecutive_failures r + 1 \<and> codex_exit_code ?e = 1
          \<or> consecutive_failures ?r1 = 0 \<and> codex_exit_code ?e = 0"
    using step by auto
  have esc: "run_loop cfg env 0 r0 = (Inr 1, ?r1) \<and> last (console ?r1) = EscalationRequired
       \<and> length (codex_calls ?r1) = length (codex_calls r) + 1"
    if eq: "consecutive_failures ?r1 = max_consecutive_failures cfg"
  proof -
    have a: "?s = Return 1 \<and> last (console ?r1) = EscalationRequired
       \<and> length (codex_calls ?r1) = length (codex_calls r) + 1"
      using step lt assms(1) eq by (auto split: if_splits)
    have "run_loop cfg env 0 r0 = run_loop cfg env (int n) r"
      using loop_state_run_loop [OF assms(3)] .
    also have "\<dots> = (Inr 1, ?r1)"
      using run_loop_stops [OF assms(4)] a by blast
    finally show ?thesis using a by simp
  qed
  show ?thesis
    using lt le how esc by (simp add: handle_exit_code_snd)
qed

theorem consecutive_failures_bounded_witness:
  "1 \<le> max_consecutive_failures patient_config
   \<and> consecutive_failures (new_runner empty_project) = 0
   \<and> loop_state patient_config failing_env (new_runner empty_project) 2 = Some after_two_failures
   \<and> int 2 < max_iterations patient_config
   \<and> consecutive_failures after_two_failures < max_consecutive_failures patient_config
   \<and> consecutive_failures
        (snd (run_iteration patient_config (iterations failing_env (int 2 + 1)) (int 2 + 1)
                after_two_failures)) = max_consecutive_failures patient_config
   \<and> run_loop patient_config failing_env 0 (new_runner empty_project)
       = (Inr 1, snd (run_iteration patient_config (iterations failing_env (int 2 + 1)) (int 2 + 1)
                        after_two_failures))
   \<and> last (console (snd (run_iteration patient_config (iterations failing_env (int 2 + 1))
                            (int 2 + 1) after_two_failures))) = EscalationRequired"
proof -
  have h1: "1 \<le> max_consecutive_failures patient_config"
    by (simp add: patient_config_def default_config_def)
  have h2: "consecutive_failures (new_runner empty_project) = 0"
    by (simp add: new_runner_def)
  have ex: "loop_state patient_config failing_env (new_runner empty_project) 2 \<noteq> None"
    by (simp add: loop_state_2 eval_defs patient_config_def failing_env_def)
  have h3: "loop_state patient_config failing_env (new_runner empty_project) 2 = Some after_two_failures"
    using ex by (simp add: after_two_failures_def)
  have h4: "int 2 < max_iterations patient_config"
    by (simp add: patient_config_def default_config_def)
  have reach: "consecutive_failures
        (snd (run_iteration patient_config (iterations failing_env (int 2 + 1)) (int 2 + 1)
                after_two_failures)) = max_consecutive_failures patient_config"
    by (simp add: after_two_failures_def loop_state_2 eval_defs patient_config_def failing_env_def)
  show ?thesis
    using h1 h2 h3 h4 reach consecutive_failures_bounded [OF h1 h2 h3 h4]
    by simp
qed

subsection \<open>A missing agent command\<close>

text \<open>
  Claim C10. When the agent command cannot be launched, \<^verbatim>\<open>_run_codex\<close> returns 1, and
  the exit-code policy treats that as a failed iteration: the counter of consecutive
  failures goes up by one and the loop continues unless the counter has reached the
  maximum; the unknown-exit-code branch is not taken. In a run where no launch
  succeeds, the escalation banner appears only after at least
  \<^verbatim>\<open>max_consecutive_failures\<close> such invocations.
\<close>

theorem missing_command_is_recoverable_failure:
  assumes "\<forall>i. codex (iterations env i) = CommandNotFound"
  shows "fst (run_codex (iterations env i) p r) = 1
       \<and> handle_exit_code cfg stamp (fst (run_codex (iterations env i) p r)) k cb ca q
           = (Inr (consecutive_failures q + 1 < max_consecutive_failures cfg),
              q\<lparr>consecutive_failures := consecutive_failures q + 1,
                console := console q @
                  (if max_consecutive_failures cfg \<le> consecutive_failures q + 1
                   then [EscalationRequired] else [])\<rparr>)
       \<and> (EscalationRequired \<in> set (console (snd (run cfg env (new_runner pr))))
            \<longrightarrow> max_consecutive_failures cfg
                  \<le> int (length (codex_calls (snd (run cfg env (new_runner pr))))))"
proof -
  have one: "fst (run_codex (iterations env i) p r) = 1"
    using assms by (simp add: run_codex_eq codex_exit_code_def)
  have start: "escalation_accounted cfg (new_runner pr)"
    by (simp add: escalation_accounted_def new_runner_def)
  have "escalation_accounted cfg (snd (run cfg env (new_runner pr)))"
  proof (cases "steering_present env")
    case True
    then show ?thesis
      using run_loop_escalation_accounted [OF start] by (simp add: run_def)
  next
    case False
    then show ?thesis
      by (simp add: run_def escalation_accounted_def new_runner_def)
  qed
  then show ?thesis
    by (simp add: one handle_exit_code_1 escalation_accounted_def)
qed

theorem missing_command_is_recoverable_failure_witness:
  "(\<forall>i. codex (iterations missing_command_env i) = CommandNotFound)
   \<and> fst (run_codex (iterations missing_command_env 1)
            (build_prompt patient_config 1 None) (new_runner empty_project)) = 1
   \<and> fst (run patient_config missing_command_env (new_runner empty_project)) = Inr 1
   \<and> EscalationRequired \<in> set (console (snd (run patient_config missing_command_env
                                                 (new_runner empty_project))))
   \<and> length (codex_calls (snd (run patient_config missing_command_env (new_runner empty_project))))
       = 3
   \<and> max_consecutive_failures patient_config
       \<le> int (length (codex_calls (snd (run patient_config missing_command_env
                                            (new_runner empty_project)))))"
proof -
  have h: "\<forall>i. codex (iterations missing_command_env i) = CommandNotFound"
    by (simp add: missing_command_env_def quiet_env_def quiet_iteration_def)
  have ev: "fst (run patient_config missing_command_env (new_runner empty_project)) = Inr 1"
    "EscalationRequired \<in> set (console (snd (run patient_config missing_command_env
                                                 (new_runner empty_project))))"
    "length (codex_calls (snd (run patient_config missing_command_env (new_runner empty_project))))
       = 3"
    by (simp_all add: eval_defs patient_config_def missing_command_env_def)
  show ?thesis
    using h ev
      missing_command_is_recoverable_failure [OF h, of 1 "build_prompt patient_config 1 None"
        "new_runner empty_project" patient_config _ _ _ _ _ empty_project]
    by simp
qed

subsection \<open>The no-progress circuit breaker\<close>

text \<open>
  Claim C4. In a run in which the commit before and the commit after are equal in
  every iteration (both absent included), the no-progress counter grows by exactly one
  with every agent invocation; the run makes no more invocations than it takes the
  counter to reach \<^verbatim>\<open>max_no_progress\<close>; and, once an invocation has been made, the
  counter has reached the maximum exactly when the run has ended with exit code 1 and
  the circuit-breaker banner. In an iteration in which the commit does change, the
  counter is reset to 0.
\<close>

theorem no_progress_trips_circuit_breaker:
  assumes "\<forall>i. head_before (iterations env i) = head_after (iterations env i)"
  shows "no_progress_count (snd (run_loop cfg env it r))
           = no_progress_count r
             + (int (length (codex_calls (snd (run_loop cfg env it r)))) - int (length (codex_calls r)))
       \<and> length (codex_calls r) \<le> length (codex_calls (snd (run_loop cfg env it r)))
       \<and> int (length (codex_calls (snd (run_loop cfg env it r)))) - int (length (codex_calls r))
           \<le> max 1 (max_no_progress cfg - no_progress_count r)
       \<and> (length (codex_calls r) < length (codex_calls (snd (run_loop cfg env it r))) \<longrightarrow>
            (max_no_progress cfg \<le> no_progress_count (snd (run_loop cfg env it r))) =
            (fst (run_loop cfg env it r) = Inr 1
               \<and> console (snd (run_loop cfg env it r)) \<noteq> []
               \<and> last (console (snd (run_loop cfg env it r))) = CircuitBreakerTriggered))
       \<and> (checkpoint_interval cfg \<noteq> 0 \<and> \<not> stop_file_exists e \<and> head_before e \<noteq> head_after e
            \<longrightarrow> no_progress_count (snd (run_iteration cfg e k q)) = 0)"
proof -
  have s: "no_progress_summary cfg r (run_loop cfg env it r)"
    using run_loop_no_progress [OF assms] .
  have reset: "checkpoint_interval cfg \<noteq> 0 \<and> \<not> stop_file_exists e \<and> head_before e \<noteq> head_after e
            \<longrightarrow> no_progress_count (snd (run_iteration cfg e k q)) = 0"
    using run_iteration_progress_resets by blast
  show ?thesis
    using s reset by (auto simp: no_progress_summary_def Let_def)
qed

theorem no_progress_trips_circuit_breaker_witness:
  "(\<forall>i. head_before (iterations no_commit_env i) = head_after (iterations no_commit_env i))
   \<and> no_progress_count (new_runner empty_project) = 0
   \<and> length (codex_calls (snd (run_loop (default_config [''proj'']) no_commit_env 0
                                  (new_runner empty_project)))) = 3
   \<and> no_progress_count (snd (run_loop (default_config [''proj'']) no_commit_env 0
                                  (new_runner empty_project))) = 3
   \<and> max_no_progress (default_config [''proj''])
       \<le> no_progress_count (snd (run_loop (default_config [''proj'']) no_commit_env 0
                                      (new_runner empty_project)))
   \<and> fst (run_loop (default_config [''proj'']) no_commit_env 0 (new_runner empty_project)) = Inr 1
   \<and> last (console (snd (run_loop (default_config [''proj'']) no_commit_env 0
                                  (new_runner empty_project)))) = CircuitBreakerTriggered
   \<and> checkpoint_interval (default_config [''proj'']) \<noteq> 0
   \<and> \<not> stop_file_exists (iterations feedback_during_run_env 1)
   \<and> head_before (iterations feedback_during_run_env 1)
       \<noteq> head_after (iterations feedback_during_run_env 1)
   \<and> no_progress_count
        (snd (run_iteration (default_config [''proj'']) (iterations feedback_during_run_env 1) 3
                ((new_runner empty_project)\<lparr>no_progress_count := 2\<rparr>))) = 0"
proof -
  have h: "\<forall>i. head_before (iterations no_commit_env i) = head_after (iterations no_commit_env i)"
    by (simp add: no_commit_env_def quiet_env_def quiet_iteration_def)
  have calls: "length (codex_calls (snd (run_loop (default_config [''proj'']) no_commit_env 0
                                  (new_runner empty_project)))) = 3"
    by (simp add: eval_defs no_commit_env_def)
  have g: "checkpoint_interval (default_config [''proj'']) \<noteq> 0
     \<and> \<not> stop_file_exists (iterations feedback_during_run_env 1)
     \<and> head_before (iterations feedback_during_run_env 1)
         \<noteq> head_after (iterations feedback_during_run_env 1)"
    by (simp add: default_config_def feedback_during_run_env_def quiet_env_def quiet_iteration_def)
  have z: "no_progress_count (new_runner empty_project) = 0"
    "codex_calls (new_runner empty_project) = []"
    "max_no_progress (default_config [''proj'']) = 3"
    by (simp_all add: new_runner_def default_config_def)
  show ?thesis
    using h calls g
      no_progress_trips_circuit_breaker [OF h, of "default_config [''proj'']" 0
        "new_runner empty_project" "iterations feedback_during_run_env 1" 3
        "(new_runner empty_project)\<lparr>no_progress_count := 2\<rparr>"]
    by (auto simp: z)
qed

subsection \<open>Checkpoints\<close>

text \<open>
  Claim C5. With a checkpoint interval of 10 and at least 10 iterations allowed, when
  iterations 1 to 10 find no stop file, the agent exits 0 and the commit changes each
  time: the loop continues through iterations 1 to 9 and pauses at iteration 10, once;
  \<^verbatim>\<open>run\<close> returns 2 after ten agent invocations, with the banner of checkpoint 1 the
  only one printed and the state file holding a STOPPED snapshot with the task PENDING.
\<close>

theorem checkpoint_pauses_at_iteration_10:
  assumes "checkpoint_interval cfg = 10" and "10 \<le> max_iterations cfg"
    and "steering_present env"
    and "\<forall>i\<in>{1..10}. \<not> stop_file_exists (iterations env i)
           \<and> codex (iterations env i) = Exited 0
           \<and> head_before (iterations env i) \<noteq> head_after (iterations env i)"
  shows "fst (run cfg env r) = Inr 2
       \<and> console (snd (run cfg env r)) = console r @ [CheckpointReached 1]
       \<and> length (codex_calls (snd (run cfg env r))) = length (codex_calls r) + 10
       \<and> read_state cfg now (snd (run cfg env r)) =
           Inr (Some \<lparr>status = STOPPED,
                      iteration = \<lparr>current = 10, specified = max_iterations cfg\<rparr>,
                      code_metrics = metrics_at_end (iterations env 10),
                      current_task = \<lparr>description = task_description (iterations env 10),
                                      task_status = PENDING\<rparr>,
                      last_output = ''Checkpoint 1 - paused for review'',
                      timestamp = clock_at_end (iterations env 10)\<rparr>)
       \<and> (\<forall>n\<in>{1..9}. loop_state cfg env r n \<noteq> None)
       \<and> loop_state cfg env r 10 = None"
proof -
  note before = loop_state_before_checkpoint [OF assms(1,2,4)]
  obtain r9 where st: "loop_state cfg env r 9 = Some r9" and c: "console r9 = console r"
    and l: "length (codex_calls r9) = length (codex_calls r) + 9"
    using before [of 9 r] by auto
  let ?e = "iterations env 10"
  have ci: "checkpoint_interval cfg \<noteq> 0" using assms(1) by simp
  have e: "\<not> stop_file_exists ?e" "codex ?e = Exited 0" "head_before ?e \<noteq> head_after ?e"
    using assms(4) by simp_all
  note step = run_iteration_success_with_commit [OF ci e, where it = 10 and r = r9]
  have ret: "fst (run_iteration cfg ?e 10 r9) = Return 2"
    using step(1) assms(1) by simp
  have lt: "int 9 < max_iterations cfg" using assms(2) by simp
  have "run_loop cfg env 0 r = run_loop cfg env (int 9) r9"
    using loop_state_run_loop [OF st] .
  also have "\<dots> = (Inr 2, snd (run_iteration cfg (iterations env (int 9 + 1)) (int 9 + 1) r9))"
    using run_loop_stops [OF lt, where env = env and r = r9 and code = 2] ret by simp
  finally have run: "run cfg env r = (Inr 2, snd (run_iteration cfg ?e 10 r9))"
    using assms(3) by (simp add: run_def)
  have ten: "str_int (10 div checkpoint_interval cfg) = ''1''"
    using assms(1) by (simp add: str_int_def str_nat.simps)
  have rs: "read_state cfg now (snd (run_iteration cfg ?e 10 r9)) =
           Inr (Some \<lparr>status = STOPPED,
                      iteration = \<lparr>current = 10, specified = max_iterations cfg\<rparr>,
                      code_metrics = metrics_at_end ?e,
                      current_task = \<lparr>description = task_description ?e, task_status = PENDING\<rparr>,
                      last_output = ''Checkpoint 1 - paused for review'',
                      timestamp = clock_at_end ?e\<rparr>)"
    using step(4) [where now = now] assms(1) ten by simp
  have cont: "\<forall>n\<in>{1..9}. loop_state cfg env r n \<noteq> None"
    using before [of _ r] by fastforce
  obtain s10 r10 where eq: "run_iteration cfg ?e 10 r9 = (s10, r10)"
    by (cases "run_iteration cfg ?e 10 r9")
  have "s10 = Return 2"
    using ret eq by simp
  then have stop: "loop_state cfg env r 10 = None"
    using st eq loop_state.simps(2) [of cfg env r 9] by simp
  show ?thesis
    unfolding run
    using step(2,3) assms(1) c l rs cont stop by simp
qed

theorem checkpoint_pauses_at_iteration_10_witness:
  "checkpoint_interval (default_config [''proj'']) = 10
   \<and> 10 \<le> max_iterations (default_config [''proj''])
   \<and> steering_present progress_env
   \<and> (\<forall>i. \<not> stop_file_exists (iterations progress_env i)
           \<and> codex (iterations progress_env i) = Exited 0
           \<and> head_before (iterations progress_env i) \<noteq> head_after (iterations progress_env i))
   \<and> fst (run (default_config [''proj'']) progress_env (new_runner empty_project)) = Inr 2
   \<and> console (snd (run (default_config [''proj'']) progress_env (new_runner empty_project)))
       = [CheckpointReached 1]
   \<and> length (codex_calls (snd (run (default_config [''proj'']) progress_env
                                  (new_runner empty_project)))) = 10
   \<and> loop_state (default_config [''proj'']) progress_env (new_runner empty_project) 9 \<noteq> None
   \<and> loop_state (default_config [''proj'']) progress_env (new_runner empty_project) 10 = None"
proof -
  have h1: "checkpoint_interval (default_config [''proj'']) = 10"
    by (simp add: default_config_def)
  have h2: "10 \<le> max_iterations (default_config [''proj''])"
    by (simp add: default_config_def)
  have h3: "steering_present progress_env"
    by (simp add: progress_env_def quiet_env_def)
  have h4: "\<forall>i\<in>{1..10}. \<not> stop_file_exists (iterations progress_env i)
           \<and> codex (iterations progress_env i) = Exited 0
           \<and> head_before (iterations progress_env i) \<noteq> head_after (iterations progress_env i)"
    by (simp add: progress_env_def quiet_env_def quiet_iteration_def)
  have h5: "\<forall>i. \<not> stop_file_exists (iterations progress_env i)
           \<and> codex (iterations progress_env i) = Exited 0
           \<and> head_before (iterations progress_env i) \<noteq> head_after (iterations progress_env i)"
    by (simp add: progress_env_def quiet_env_def quiet_iteration_def)
  have z: "console (new_runner empty_project) = []" "codex_calls (new_runner empty_project) = []"
    by (simp_all add: new_runner_def)
  show ?thesis
    using h1 h2 h3 h5
      checkpoint_pauses_at_iteration_10 [OF h1 h2 h3 h4, of "new_runner empty_project"]
    by (simp add: z)
qed

end
